theory Spec2Isabelle
  imports Complex_Main
begin

section \<open>JavaScript values used by the checkout flow\<close>

text \<open>
  The storefront is TypeScript on Node. The reconciliation flow lives in three files:
  \<^verbatim>\<open>src/lib/actions/checkout.ts\<close> (\<^verbatim>\<open>createCheckoutSession\<close>, \<^verbatim>\<open>getCheckoutSession\<close>),
  \<^verbatim>\<open>src/lib/actions/customer.ts\<close> (\<^verbatim>\<open>getOrCreateStripeCustomer\<close>) and
  \<^verbatim>\<open>src/app/api/webhooks/stripe/route.ts\<close> (\<^verbatim>\<open>POST\<close>, \<^verbatim>\<open>handleCheckoutCompleted\<close>).

  A value that may be \<^verbatim>\<open>null\<close> or \<^verbatim>\<open>undefined\<close> is an \<open>option\<close>. A string is truthy
  when it is present and not empty, which is what \<^verbatim>\<open>!s\<close> and \<^verbatim>\<open>s && ...\<close> test.
\<close>

definition truthy :: "string option \<Rightarrow> bool" where
  "truthy s = (case s of None \<Rightarrow> False | Some v \<Rightarrow> v \<noteq> [])"

text \<open>\<^verbatim>\<open>Array.prototype.join\<close>: the separator goes between the elements only.\<close>

fun join :: "string \<Rightarrow> string list \<Rightarrow> string" where
  "join sep [] = []"
| "join sep [x] = x"
| "join sep (x # y # ys) = x @ sep @ join sep (y # ys)"

text \<open>
  \<^verbatim>\<open>String.prototype.split\<close> with a one-character separator. The empty string splits into
  one empty field, \<^verbatim>\<open>"".split(",")\<close> is \<^verbatim>\<open>[""]\<close>, never into no field.
\<close>

fun split :: "char \<Rightarrow> string \<Rightarrow> string list" where
  "split sep [] = [[]]"
| "split sep (c # cs) =
     (if c = sep then [] # split sep cs
      else (case split sep cs of [] \<Rightarrow> [[c]] | w # ws \<Rightarrow> (c # w) # ws))"

text \<open>
  Numbers. Quantities and stock counts are integers in the data this flow handles; they are
  \<open>int\<close> here. \<^verbatim>\<open>Number(s)\<close> can fail to read a number, and a read past the end of an
  array gives \<^verbatim>\<open>undefined\<close>, so a parsed quantity is a \<open>jsnum\<close> and an indexed one a
  \<open>jsnum option\<close>.
\<close>

datatype jsnum = Num int | NaN

text \<open>The digits are the characters 48 to 57.\<close>

definition digit_char :: "nat \<Rightarrow> char" where
  "digit_char d = char_of (48 + d)"

definition digit_val :: "char \<Rightarrow> nat option" where
  "digit_val c =
     (let code = (of_char c :: nat)
      in if 48 \<le> code \<and> code \<le> 57 then Some (code - 48) else None)"

text \<open>The decimal digits of a natural number, most significant first, no leading zero.\<close>

fun digits :: "nat \<Rightarrow> string" where
  "digits n = (if n < 10 then [digit_char n] else digits (n div 10) @ [digit_char (n mod 10)])"

declare digits.simps [simp del]

text \<open>\<^verbatim>\<open>String(n)\<close> of an integer, as a template literal and \<^verbatim>\<open>join\<close> apply it.\<close>

definition String :: "int \<Rightarrow> string" where
  "String n = (if n < 0 then CHR ''-'' # digits (nat (- n)) else digits (nat n))"

text \<open>Reading a run of decimal digits, left to right; \<open>None\<close> at the first other character.\<close>

fun parse_digits :: "nat \<Rightarrow> string \<Rightarrow> nat option" where
  "parse_digits acc [] = Some acc"
| "parse_digits acc (c # cs) =
     (case digit_val c of None \<Rightarrow> None | Some d \<Rightarrow> parse_digits (10 * acc + d) cs)"

text \<open>
  \<^verbatim>\<open>Number(s)\<close> on the integer literals: an optional sign and decimal digits; the empty string
  reads as 0. Every other string is \<open>NaN\<close> here. JavaScript also reads surrounding white
  space, fractions, exponents, hexadecimal and \<^verbatim>\<open>Infinity\<close>; the flow never writes those into
  the metadata, and no statement below applies \<open>Number\<close> to one.
\<close>

definition Number :: "string \<Rightarrow> jsnum" where
  "Number s =
     (case s of
        [] \<Rightarrow> Num 0
      | c # cs \<Rightarrow>
          (if c = CHR ''-'' then
             (if cs = [] then NaN
              else (case parse_digits 0 cs of None \<Rightarrow> NaN | Some n \<Rightarrow> Num (- int n)))
           else if c = CHR ''+'' then
             (if cs = [] then NaN
              else (case parse_digits 0 cs of None \<Rightarrow> NaN | Some n \<Rightarrow> Num (int n)))
           else (case parse_digits 0 s of None \<Rightarrow> NaN | Some n \<Rightarrow> Num (int n))))"

text \<open>
  Prices and totals are JavaScript doubles. A double is the real number it denotes, and
  an arithmetic operation returns the exact result rounded to a double: \<open>fl\<close> is that
  rounding, left open, so every statement holds whatever it is. \<^verbatim>\<open>Math.round\<close> itself is
  exact: the integer nearest to its argument, a tie going up.
\<close>

definition Math_round :: "real \<Rightarrow> int" where
  "Math_round x = \<lfloor>x + 1 / 2\<rfloor>"

definition js_mul :: "(real \<Rightarrow> real) \<Rightarrow> real \<Rightarrow> real \<Rightarrow> real" where
  "js_mul fl x y = fl (x * y)"

definition js_div :: "(real \<Rightarrow> real) \<Rightarrow> real \<Rightarrow> real \<Rightarrow> real" where
  "js_div fl x y = fl (x / y)"

text \<open>\<^verbatim>\<open>xs[i]\<close>: \<^verbatim>\<open>undefined\<close> past the end.\<close>

definition at_index :: "'a list \<Rightarrow> nat \<Rightarrow> 'a option" where
  "at_index xs i = (if i < length xs then Some (xs ! i) else None)"

section \<open>The Content Store and the Payment Provider\<close>

text \<open>
  Documents of the Content Store (Sanity). A product as \<^verbatim>\<open>PRODUCTS_BY_IDS_QUERY\<close> projects
  it (\<^verbatim>\<open>src/sanity/queries/products.ts\<close>); every field but \<^verbatim>\<open>_id\<close> may be missing.
\<close>

record product =
  product_id :: string
  product_name :: "string option"
  product_price :: "real option"
  product_stock :: "int option"
  product_image :: "string option"

datatype order_status = Paid | Shipped | Delivered | Cancelled

record order_item =
  item_key :: string
  item_product :: string
  item_quantity :: "jsnum option"
  priceAtPurchase :: real

record address =
  address_name :: string
  address_line1 :: string
  address_line2 :: string
  address_city :: string
  address_postcode :: string
  address_country :: string

record order =
  order_id :: string
  orderNumber :: string
  order_customer :: "string option"
  order_clerkUserId :: string
  order_email :: string
  order_items :: "order_item list"
  order_total :: real
  order_status :: order_status
  order_stripePaymentId :: string
  order_address :: "address option"
  order_createdAt :: string

text \<open>A customer document, as \<^verbatim>\<open>CUSTOMER_BY_EMAIL_QUERY\<close> projects it.\<close>

record customer =
  customer_id :: string
  customer_email :: "string option"
  customer_name :: "string option"
  customer_clerkUserId :: "string option"
  customer_stripeCustomerId :: "string option"
  customer_createdAt :: "string option"

text \<open>Objects of the Payment Provider (Stripe), with the fields the flow reads or writes.\<close>

record stripe_customer =
  sc_id :: string
  sc_email :: "string option"
  sc_name :: "string option"
  sc_clerkUserId :: "string option"

record stripe_address =
  sa_line1 :: "string option"
  sa_line2 :: "string option"
  sa_city :: "string option"
  sa_postal_code :: "string option"
  sa_country :: "string option"

record customer_details =
  cd_email :: "string option"
  cd_name :: "string option"
  cd_address :: "stripe_address option"

text \<open>
  A line item of a session as the provider lists it. \<open>li_amount_total\<close> is the amount of
  the whole line in pence, the quantity included.
\<close>

record line_item =
  li_description :: "string option"
  li_quantity :: "int option"
  li_amount_total :: int

text \<open>
  A Checkout Session. \<^verbatim>\<open>payment_intent\<close> is read with \<^verbatim>\<open>as string\<close> in the handler and is a
  string here. \<open>session_line_items\<close> is what the provider returns for the session's line
  items, to \<^verbatim>\<open>listLineItems\<close> and to \<^verbatim>\<open>retrieve\<close> with \<^verbatim>\<open>expand\<close>.
\<close>

record session =
  session_id :: string
  payment_intent :: string
  session_metadata :: "(string \<times> string) list option"
  amount_total :: "int option"
  payment_status :: string
  session_customer_details :: "customer_details option"
  session_line_items :: "line_item list"

text \<open>The parameters of \<^verbatim>\<open>stripe.checkout.sessions.create\<close>.\<close>

record session_line_item =
  currency :: string
  pd_name :: string
  pd_images :: "string list"
  pd_productId :: string
  unit_amount :: int
  sl_quantity :: int

record session_params =
  mode :: string
  payment_method_types :: "string list"
  line_items :: "session_line_item list"
  sp_customer :: string
  allowed_countries :: "string list"
  sp_metadata :: "(string \<times> string) list"
  success_url :: string
  cancel_url :: string

text \<open>
  The state outside the process: the documents of the Content Store and the objects of the
  Payment Provider. Stripe lists customers newest first; \<open>stripe_created\<close> are the checkout
  sessions requested so far.
\<close>

record world =
  products :: "product list"
  orders :: "order list"
  customers :: "customer list"
  stripe_customers :: "stripe_customer list"
  stripe_sessions :: "session list"
  stripe_created :: "session_params list"

text \<open>
  The calls that leave the process. Each can throw; \<open>Thrown c\<close> is the exception of
  call \<open>c\<close>.
\<close>

datatype call =
    Auth | CurrentUser | FetchProducts | FetchCustomer | ListStripeCustomers
  | CreateStripeCustomer | PatchCustomer | CreateCustomer | CreateSession
  | RetrieveSession | FetchOrder | ListLineItems | CreateOrder | CommitStock

datatype error = Thrown call

record clerk_user =
  emailAddresses :: "string list"
  firstName :: "string option"
  lastName :: "string option"

record event =
  event_type :: string
  event_object :: session

text \<open>
  What one invocation gets from outside and cannot choose: which calls throw, the signed-in
  user, the clock, the random suffix, the identifiers the stores assign, the environment
  variables, and the provider SDK's \<^verbatim>\<open>constructEvent\<close> (body, signature header, secret), which
  returns the event or throws with a message.
\<close>

record env =
  fails :: "call \<Rightarrow> bool"
  fl :: "real \<Rightarrow> real"
  auth_userId :: "string option"
  current_user :: "clerk_user option"
  now_iso :: string
  now_base36 :: string
  random_base36 :: string
  new_document_id :: string
  new_stripe_id :: string
  new_session_url :: "string option"
  NEXT_PUBLIC_BASE_URL :: "string option"
  VERCEL_URL :: "string option"
  webhookSecret :: string
  constructEvent :: "string \<Rightarrow> string \<Rightarrow> string \<Rightarrow> string + event"


section \<open>The Payment Confirmation Handler\<close>

text \<open>
  \<^verbatim>\<open>ORDER_BY_STRIPE_PAYMENT_ID_QUERY\<close> (\<^verbatim>\<open>src/sanity/queries/orders.ts\<close>): the first order
  document whose \<^verbatim>\<open>stripePaymentId\<close> is the parameter, or nothing.
\<close>

definition ORDER_BY_STRIPE_PAYMENT_ID_QUERY :: "world \<Rightarrow> string \<Rightarrow> order option" where
  "ORDER_BY_STRIPE_PAYMENT_ID_QUERY w stripePaymentId =
     find (\<lambda>ord. order_stripePaymentId ord = stripePaymentId) (orders w)"

text \<open>
  \<^verbatim>\<open>stripe.checkout.sessions.listLineItems(session.id)\<close>: the provider's listing for that
  session, an error when the provider has no such session. (The call passes no \<^verbatim>\<open>limit\<close>, so
  the provider returns one page; \<open>session_line_items\<close> is that page.)
\<close>

definition listLineItems :: "env \<Rightarrow> world \<Rightarrow> string \<Rightarrow> error + line_item list" where
  "listLineItems e w sid =
     (if fails e ListLineItems then Inl (Thrown ListLineItems)
      else (case find (\<lambda>s. session_id s = sid) (stripe_sessions w) of
              None \<Rightarrow> Inl (Thrown ListLineItems)
            | Some s \<Rightarrow> Inr (session_line_items s)))"

text \<open>
  One patch of the stock transaction, \<^verbatim>\<open>tx.patch(productId, p => p.dec({stock: q}))\<close>. The
  store rejects a patch of a document that does not exist. A stock field that is missing
  stays missing. A patch whose amount is not a number (\<^verbatim>\<open>NaN\<close>, or \<^verbatim>\<open>undefined\<close> when the
  quantities are fewer than the product ids) is taken to be rejected as well; no statement
  below rests on that case.
\<close>

definition dec_stock :: "string \<Rightarrow> jsnum option \<Rightarrow> product list \<Rightarrow> product list option" where
  "dec_stock productId q ps =
     (case q of
        Some (Num n) \<Rightarrow>
          (if list_ex (\<lambda>p. product_id p = productId) ps
           then Some (map (\<lambda>p. if product_id p = productId
                                then p\<lparr>product_stock := map_option (\<lambda>s. s - n) (product_stock p)\<rparr>
                                else p) ps)
           else None)
      | _ \<Rightarrow> None)"

text \<open>
  The transaction: the patches in order, each on the result of the one before; all of them
  or none (\<open>None\<close>: the commit throws and no document changes).
\<close>

fun transaction :: "(string \<times> jsnum option) list \<Rightarrow> product list \<Rightarrow> product list option" where
  "transaction [] ps = Some ps"
| "transaction ((productId, q) # patches) ps =
     (case dec_stock productId q ps of
        None \<Rightarrow> None
      | Some ps' \<Rightarrow> transaction patches ps')"

text \<open>
  The two lists the handler reads back from the metadata:
  \<^verbatim>\<open>productIdsString.split(",")\<close> and \<^verbatim>\<open>quantitiesString.split(",").map(Number)\<close>.
\<close>

definition decode_productIds :: "string \<Rightarrow> string list" where
  "decode_productIds productIdsString = split CHR '','' productIdsString"

definition decode_quantities :: "string \<Rightarrow> jsnum list" where
  "decode_quantities quantitiesString = map Number (split CHR '','' quantitiesString)"

text \<open>
  The patches the \<^verbatim>\<open>reduce\<close> puts into the transaction: for the product id at index \<open>i\<close>,
  a decrement by \<^verbatim>\<open>quantities[i]\<close>.
\<close>

definition stock_patches :: "string list \<Rightarrow> jsnum list \<Rightarrow> (string \<times> jsnum option) list" where
  "stock_patches productIds quantities =
     map (\<lambda>(i, productId). (productId, at_index quantities i)) (enumerate 0 productIds)"

text \<open>The three ways \<^verbatim>\<open>handleCheckoutCompleted\<close> returns without throwing.\<close>

datatype outcome = Deduplicated | MissingMetadata | StockAdjusted

text \<open>\<^verbatim>\<open>session.metadata ?? {}\<close>, then a key of it. The metadata object is kept as the list
  of its entries, as the session request writes them.\<close>

definition metadata_get :: "session \<Rightarrow> string \<Rightarrow> string option" where
  "metadata_get s k = (case session_metadata s of None \<Rightarrow> None | Some m \<Rightarrow> map_of m k)"

text \<open>
  The amount stored for the line at an index:
  \<^verbatim>\<open>lineItems.data[index]?.amount_total ? lineItems.data[index].amount_total / 100 : 0\<close>.
\<close>

definition line_price :: "env \<Rightarrow> line_item list \<Rightarrow> nat \<Rightarrow> real" where
  "line_price e lineItems index =
     (case at_index lineItems index of
        None \<Rightarrow> 0
      | Some li \<Rightarrow> if li_amount_total li \<noteq> 0
                    then js_div (fl e) (real_of_int (li_amount_total li)) 100
                    else 0)"

text \<open>The items of the order: one per product id, with the quantity and the listed line
  at the same index.\<close>

definition orderItems ::
  "env \<Rightarrow> string list \<Rightarrow> jsnum list \<Rightarrow> line_item list \<Rightarrow> order_item list" where
  "orderItems e productIds quantities lineItems =
     map (\<lambda>(index, productId).
            \<lparr>item_key = ''item-'' @ String (int index),
             item_product = productId,
             item_quantity = at_index quantities index,
             priceAtPurchase = line_price e lineItems index\<rparr>)
         (enumerate 0 productIds)"

definition shipping_address :: "session \<Rightarrow> address option" where
  "shipping_address s =
     (case session_customer_details s of
        None \<Rightarrow> None
      | Some cd \<Rightarrow>
          (case cd_address cd of
             None \<Rightarrow> None
           | Some a \<Rightarrow>
               Some \<lparr>address_name = (case cd_name cd of None \<Rightarrow> [] | Some n \<Rightarrow> n),
                     address_line1 = (case sa_line1 a of None \<Rightarrow> [] | Some v \<Rightarrow> v),
                     address_line2 = (case sa_line2 a of None \<Rightarrow> [] | Some v \<Rightarrow> v),
                     address_city = (case sa_city a of None \<Rightarrow> [] | Some v \<Rightarrow> v),
                     address_postcode = (case sa_postal_code a of None \<Rightarrow> [] | Some v \<Rightarrow> v),
                     address_country = (case sa_country a of None \<Rightarrow> [] | Some v \<Rightarrow> v)\<rparr>))"

text \<open>The document passed to \<^verbatim>\<open>writeClient.create\<close>, with the id the store gives it.\<close>

definition new_order ::
  "env \<Rightarrow> session \<Rightarrow> string \<Rightarrow> string list \<Rightarrow> jsnum list \<Rightarrow> line_item list \<Rightarrow> order" where
  "new_order e s clerkUserId productIds quantities lineItems =
     \<lparr>order_id = new_document_id e,
      orderNumber = ''ORD-'' @ now_base36 e @ ''-'' @ random_base36 e,
      order_customer =
        (if truthy (metadata_get s ''sanityCustomerId'')
         then metadata_get s ''sanityCustomerId'' else None),
      order_clerkUserId = clerkUserId,
      order_email =
        (case metadata_get s ''userEmail'' of
           Some userEmail \<Rightarrow> userEmail
         | None \<Rightarrow>
             (case session_customer_details s of
                None \<Rightarrow> []
              | Some cd \<Rightarrow> (case cd_email cd of None \<Rightarrow> [] | Some m \<Rightarrow> m))),
      order_items = orderItems e productIds quantities lineItems,
      order_total =
        js_div (fl e) (real_of_int (case amount_total s of None \<Rightarrow> 0 | Some a \<Rightarrow> a)) 100,
      order_status = Paid,
      order_stripePaymentId = payment_intent s,
      order_address = shipping_address s,
      order_createdAt = now_iso e\<rparr>"

text \<open>
  \<^verbatim>\<open>handleCheckoutCompleted\<close>. The result is the exception rethrown by the \<^verbatim>\<open>catch\<close>, or the way
  the function returned, and the state it leaves.
\<close>

definition handleCheckoutCompleted :: "env \<Rightarrow> session \<Rightarrow> world \<Rightarrow> (error + outcome) \<times> world" where
  "handleCheckoutCompleted e s w =
     (let stripePaymentId = payment_intent s in
      if fails e FetchOrder then (Inl (Thrown FetchOrder), w)
      else (case ORDER_BY_STRIPE_PAYMENT_ID_QUERY w stripePaymentId of
        Some existingOrder \<Rightarrow> (Inr Deduplicated, w)
      | None \<Rightarrow>
          (let clerkUserId = metadata_get s ''clerkUserId'';
               productIdsString = metadata_get s ''productIds'';
               quantitiesString = metadata_get s ''quantities''
           in if \<not> truthy clerkUserId \<or> \<not> truthy productIdsString \<or> \<not> truthy quantitiesString
              then (Inr MissingMetadata, w)
              else
                (let productIds = decode_productIds (the productIdsString);
                     quantities = decode_quantities (the quantitiesString)
                 in case listLineItems e w (session_id s) of
                      Inl err \<Rightarrow> (Inl err, w)
                    | Inr lineItems \<Rightarrow>
                        if fails e CreateOrder then (Inl (Thrown CreateOrder), w)
                        else
                          (let w1 = w\<lparr>orders := orders w @
                                      [new_order e s (the clerkUserId) productIds quantities lineItems]\<rparr>
                           in if fails e CommitStock then (Inl (Thrown CommitStock), w1)
                              else
                                (case transaction
                                        (stock_patches productIds quantities)
                                        (products w1) of
                                   None \<Rightarrow> (Inl (Thrown CommitStock), w1)
                                 | Some ps \<Rightarrow> (Inr StockAdjusted, w1\<lparr>products := ps\<rparr>)))))))"

text \<open>The request and the response of the route; the JSON body of the response is kept
  as its printed entries.\<close>

record request =
  body :: string
  stripe_signature :: "string option"

record response =
  status :: nat
  json :: "(string \<times> string) list"

text \<open>
  \<^verbatim>\<open>POST\<close>. \<open>Inl\<close> is an exception that leaves the route handler uncaught.
\<close>

definition POST :: "env \<Rightarrow> request \<Rightarrow> world \<Rightarrow> (error + response) \<times> world" where
  "POST e req w =
     (if \<not> truthy (stripe_signature req)
      then (Inr \<lparr>status = 400, json = [(''error'', ''Missing stripe-signature header'')]\<rparr>, w)
      else
        (case constructEvent e (body req) (the (stripe_signature req)) (webhookSecret e) of
           Inl message \<Rightarrow>
             (Inr \<lparr>status = 400, json = [(''error'', ''Webhook Error: '' @ message)]\<rparr>, w)
         | Inr ev \<Rightarrow>
             if event_type ev = ''checkout.session.completed''
             then (case handleCheckoutCompleted e (event_object ev) w of
                     (Inl err, w') \<Rightarrow> (Inl err, w')
                   | (Inr _, w') \<Rightarrow> (Inr \<lparr>status = 200, json = [(''received'', ''true'')]\<rparr>, w'))
             else (Inr \<lparr>status = 200, json = [(''received'', ''true'')]\<rparr>, w)))"

text \<open>
  The status the provider sees. The framework answers an exception that escapes a route
  handler with 500, which is what the comment at the rethrow in the source relies on
  (\<^verbatim>\<open>throw error // 500 -> Stripe retries\<close>).
\<close>

definition http_status :: "error + response \<Rightarrow> nat" where
  "http_status r = (case r of Inl _ \<Rightarrow> 500 | Inr resp \<Rightarrow> status resp)"

text \<open>The same event delivered again and again, one environment per delivery.\<close>

fun redeliver :: "env list \<Rightarrow> session \<Rightarrow> world \<Rightarrow> (error + outcome) list \<times> world" where
  "redeliver [] s w = ([], w)"
| "redeliver (e # es) s w =
     (case handleCheckoutCompleted e s w of
        (r, w') \<Rightarrow> (case redeliver es s w' of (rs, w'') \<Rightarrow> (r # rs, w'')))"


section \<open>The Cart Validator and the Checkout Session Initiator\<close>

text \<open>A cart item as the client sends it; name and price are the client's claims.\<close>

record cart_item =
  ci_productId :: string
  ci_name :: string
  ci_price :: real
  ci_quantity :: int
  ci_image :: "string option"

record checkout_result =
  cr_success :: bool
  cr_url :: "string option"
  cr_error :: "string option"

text \<open>
  \<^verbatim>\<open>PRODUCTS_BY_IDS_QUERY\<close> (\<^verbatim>\<open>src/sanity/queries/products.ts\<close>): the product documents
  whose \<^verbatim>\<open>_id\<close> is among the ids, one query for the whole cart.
\<close>

definition PRODUCTS_BY_IDS_QUERY :: "world \<Rightarrow> string list \<Rightarrow> product list" where
  "PRODUCTS_BY_IDS_QUERY w ids = filter (\<lambda>p. product_id p \<in> set ids) (products w)"

text \<open>
  The three messages the validation loop pushes, tagged by the branch that pushes them,
  and their text. A template literal prints a missing value as \<^verbatim>\<open>null\<close>. The double quote is
  character 34.
\<close>

datatype validation_error =
    ProductUnavailable string
  | OutOfStock "string option"
  | InsufficientStock "int option" "string option"

definition quoted :: "string \<Rightarrow> string" where
  "quoted s = char_of (34 :: nat) # s @ [char_of (34 :: nat)]"

definition or_null :: "string option \<Rightarrow> string" where
  "or_null s = (case s of None \<Rightarrow> ''null'' | Some v \<Rightarrow> v)"

fun error_message :: "validation_error \<Rightarrow> string" where
  "error_message (ProductUnavailable name) = ''Product '' @ quoted name @ '' is no longer available''"
| "error_message (OutOfStock name) = quoted (or_null name) @ '' is out of stock''"
| "error_message (InsufficientStock stock name) =
     ''Only '' @ (case stock of None \<Rightarrow> ''null'' | Some n \<Rightarrow> String n) @ '' of ''
       @ quoted (or_null name) @ '' available''"

record validated_item =
  vi_product :: product
  vi_quantity :: int

text \<open>
  The loop of step 4 over the products the query found: for each item, in order, either
  one error is pushed or the item is pushed onto the validated items with its product.
\<close>

fun validate_items ::
  "product list \<Rightarrow> cart_item list \<Rightarrow> validation_error list \<Rightarrow> validated_item list
     \<Rightarrow> validation_error list \<times> validated_item list" where
  "validate_items found [] validationErrors validatedItems = (validationErrors, validatedItems)"
| "validate_items found (item # items) validationErrors validatedItems =
     (case find (\<lambda>p. product_id p = ci_productId item) found of
        None \<Rightarrow>
          validate_items found items
            (validationErrors @ [ProductUnavailable (ci_name item)]) validatedItems
      | Some product \<Rightarrow>
          if (case product_stock product of None \<Rightarrow> 0 | Some st \<Rightarrow> st) = 0 then
            validate_items found items
              (validationErrors @ [OutOfStock (product_name product)]) validatedItems
          else if ci_quantity item > (case product_stock product of None \<Rightarrow> 0 | Some st \<Rightarrow> st) then
            validate_items found items
              (validationErrors @ [InsufficientStock (product_stock product) (product_name product)])
              validatedItems
          else
            validate_items found items validationErrors
              (validatedItems @ [\<lparr>vi_product = product, vi_quantity = ci_quantity item\<rparr>]))"

text \<open>The provider line item of a validated item (step 5).\<close>

definition stripe_line_item :: "env \<Rightarrow> validated_item \<Rightarrow> session_line_item" where
  "stripe_line_item e vi =
     \<lparr>currency = ''gbp'',
      pd_name = (case product_name (vi_product vi) of None \<Rightarrow> ''Product'' | Some n \<Rightarrow> n),
      pd_images = (if truthy (product_image (vi_product vi))
                   then [the (product_image (vi_product vi))] else []),
      pd_productId = product_id (vi_product vi),
      unit_amount =
        Math_round (js_mul (fl e)
          (case product_price (vi_product vi) of None \<Rightarrow> 0 | Some price \<Rightarrow> price) 100),
      sl_quantity = vi_quantity vi\<rparr>"

text \<open>The two metadata strings of step 7.\<close>

definition encode_productIds :: "validated_item list \<Rightarrow> string" where
  "encode_productIds validatedItems =
     join '','' (map (\<lambda>i. product_id (vi_product i)) validatedItems)"

definition encode_quantities :: "validated_item list \<Rightarrow> string" where
  "encode_quantities validatedItems =
     join '','' (map (\<lambda>i. String (vi_quantity i)) validatedItems)"

text \<open>
  \<^verbatim>\<open>String.prototype.trim\<close> on the ASCII white space: space, tab, line feed, vertical tab,
  form feed and carriage return.
\<close>

definition is_space :: "char \<Rightarrow> bool" where
  "is_space c = ((of_char c :: nat) = 32 \<or> (9 \<le> (of_char c :: nat) \<and> (of_char c :: nat) \<le> 13))"

definition trim :: "string \<Rightarrow> string" where
  "trim s = rev (dropWhile is_space (rev (dropWhile is_space s)))"

definition shipping_countries :: "string list" where
  "shipping_countries =
     [''GB'', ''US'', ''CA'', ''AU'', ''NZ'', ''IE'', ''DE'', ''FR'', ''ES'', ''IT'',
      ''NL'', ''BE'', ''AT'', ''CH'', ''SE'', ''NO'', ''DK'', ''FI'', ''PT'', ''PL'',
      ''CZ'', ''GR'', ''HU'', ''RO'', ''BG'', ''HR'', ''SI'', ''SK'', ''LT'', ''LV'',
      ''EE'', ''LU'', ''MT'', ''CY'', ''JP'', ''SG'', ''HK'', ''KR'', ''TW'', ''MY'',
      ''TH'', ''IN'', ''AE'', ''SA'', ''IL'', ''ZA'', ''BR'', ''MX'', ''AR'', ''CL'',
      ''CO'']"

text \<open>
  \<^verbatim>\<open>NEXT_PUBLIC_BASE_URL || (VERCEL_URL ? `https://${VERCEL_URL}` : null) || "http://localhost:3000"\<close>
\<close>

definition baseUrl :: "env \<Rightarrow> string" where
  "baseUrl e =
     (if truthy (NEXT_PUBLIC_BASE_URL e) then the (NEXT_PUBLIC_BASE_URL e)
      else if truthy (VERCEL_URL e) then ''https://'' @ the (VERCEL_URL e)
      else ''http://localhost:3000'')"

text \<open>
  \<^verbatim>\<open>CUSTOMER_BY_EMAIL_QUERY\<close> (\<^verbatim>\<open>src/sanity/queries/customers.ts\<close>): the first customer
  document with that email.
\<close>

definition CUSTOMER_BY_EMAIL_QUERY :: "world \<Rightarrow> string \<Rightarrow> customer option" where
  "CUSTOMER_BY_EMAIL_QUERY w email = find (\<lambda>c. customer_email c = Some email) (customers w)"

text \<open>\<^verbatim>\<open>stripe.customers.list({ email, limit: 1 })\<close>: the newest customer with that email.\<close>

definition list_stripe_customers :: "world \<Rightarrow> string \<Rightarrow> stripe_customer list" where
  "list_stripe_customers w email = take 1 (filter (\<lambda>c. sc_email c = Some email) (stripe_customers w))"

text \<open>
  \<^verbatim>\<open>getOrCreateStripeCustomer\<close> (\<^verbatim>\<open>src/lib/actions/customer.ts\<close>). It has no \<^verbatim>\<open>try\<close>: an
  exception of a call leaves it, with the writes made before.
\<close>

definition getOrCreateStripeCustomer ::
  "env \<Rightarrow> string \<Rightarrow> string \<Rightarrow> string \<Rightarrow> world \<Rightarrow> (error + string \<times> string) \<times> world" where
  "getOrCreateStripeCustomer e email name clerkUserId w =
     (if fails e FetchCustomer then (Inl (Thrown FetchCustomer), w)
      else
        (let existingCustomer = CUSTOMER_BY_EMAIL_QUERY w email in
         if (case existingCustomer of
               None \<Rightarrow> False
             | Some c \<Rightarrow> truthy (customer_stripeCustomerId c))
         then (Inr (the (customer_stripeCustomerId (the existingCustomer)),
                    customer_id (the existingCustomer)), w)
         else if fails e ListStripeCustomers then (Inl (Thrown ListStripeCustomers), w)
         else
           (let existingStripeCustomers = list_stripe_customers w email in
            case (if length existingStripeCustomers > 0
                  then (Inr (sc_id (hd existingStripeCustomers)), w)
                  else if fails e CreateStripeCustomer then (Inl (Thrown CreateStripeCustomer), w)
                  else (Inr (new_stripe_id e),
                        w\<lparr>stripe_customers :=
                            \<lparr>sc_id = new_stripe_id e, sc_email = Some email, sc_name = Some name,
                             sc_clerkUserId = Some clerkUserId\<rparr> # stripe_customers w\<rparr>)) of
              (Inl err, w1) \<Rightarrow> (Inl err, w1)
            | (Inr stripeCustomerId, w1) \<Rightarrow>
                (case existingCustomer of
                   Some c \<Rightarrow>
                     if fails e PatchCustomer then (Inl (Thrown PatchCustomer), w1)
                     else (Inr (stripeCustomerId, customer_id c),
                           w1\<lparr>customers :=
                               map (\<lambda>d. if customer_id d = customer_id c
                                         then d\<lparr>customer_stripeCustomerId := Some stripeCustomerId,
                                                customer_clerkUserId := Some clerkUserId,
                                                customer_name := Some name\<rparr>
                                         else d)
                                   (customers w1)\<rparr>)
                 | None \<Rightarrow>
                     if fails e CreateCustomer then (Inl (Thrown CreateCustomer), w1)
                     else (Inr (stripeCustomerId, new_document_id e),
                           w1\<lparr>customers := customers w1 @
                               [\<lparr>customer_id = new_document_id e, customer_email = Some email,
                                 customer_name = Some name,
                                 customer_clerkUserId = Some clerkUserId,
                                 customer_stripeCustomerId = Some stripeCustomerId,
                                 customer_createdAt = Some (now_iso e)\<rparr>]\<rparr>)))))"

text \<open>The parameters of the session request (steps 7 and 8).\<close>

definition checkout_metadata ::
  "string \<Rightarrow> string \<Rightarrow> string \<Rightarrow> validated_item list \<Rightarrow> (string \<times> string) list" where
  "checkout_metadata userId userEmail sanityCustomerId validatedItems =
     [(''clerkUserId'', userId),
      (''userEmail'', userEmail),
      (''sanityCustomerId'', sanityCustomerId),
      (''productIds'', encode_productIds validatedItems),
      (''quantities'', encode_quantities validatedItems)]"

definition checkout_params ::
  "env \<Rightarrow> session_line_item list \<Rightarrow> string \<Rightarrow> (string \<times> string) list \<Rightarrow> session_params" where
  "checkout_params e lineItems stripeCustomerId metadata =
     \<lparr>mode = ''payment'',
      payment_method_types = [''card''],
      line_items = lineItems,
      sp_customer = stripeCustomerId,
      allowed_countries = shipping_countries,
      sp_metadata = metadata,
      success_url = baseUrl e @ ''/checkout/success?session_id={CHECKOUT_SESSION_ID}'',
      cancel_url = baseUrl e @ ''/checkout''\<rparr>"

text \<open>
  The body of the \<^verbatim>\<open>try\<close> of \<^verbatim>\<open>createCheckoutSession\<close>: \<open>Inl\<close> is an exception on its way
  to the \<^verbatim>\<open>catch\<close>.
\<close>

definition createCheckoutSession_try ::
  "env \<Rightarrow> cart_item list \<Rightarrow> world \<Rightarrow> (error + checkout_result) \<times> world" where
  "createCheckoutSession_try e items w =
     (if fails e Auth then (Inl (Thrown Auth), w)
      else if fails e CurrentUser then (Inl (Thrown CurrentUser), w)
      else if \<not> truthy (auth_userId e) \<or> current_user e = None
      then (Inr \<lparr>cr_success = False, cr_url = None,
                 cr_error = Some ''Please sign in to checkout''\<rparr>, w)
      else if items = []
      then (Inr \<lparr>cr_success = False, cr_url = None, cr_error = Some ''Your cart is empty''\<rparr>, w)
      else if fails e FetchProducts then (Inl (Thrown FetchProducts), w)
      else
        (let userId = the (auth_userId e);
             user = the (current_user e);
             productIds = map ci_productId items;
             found = PRODUCTS_BY_IDS_QUERY w productIds;
             (validationErrors, validatedItems) = validate_items found items [] []
         in if length validationErrors > 0
            then (Inr \<lparr>cr_success = False, cr_url = None,
                       cr_error = Some (join ''. '' (map error_message validationErrors))\<rparr>, w)
            else
              (let lineItems = map (stripe_line_item e) validatedItems;
                   userEmail = (case emailAddresses user of [] \<Rightarrow> [] | a # _ \<Rightarrow> a);
                   fullName = trim ((case firstName user of None \<Rightarrow> [] | Some n \<Rightarrow> n) @ '' ''
                                     @ (case lastName user of None \<Rightarrow> [] | Some n \<Rightarrow> n));
                   userName = (if fullName \<noteq> [] then fullName else userEmail)
               in case getOrCreateStripeCustomer e userEmail userName userId w of
                    (Inl err, w1) \<Rightarrow> (Inl err, w1)
                  | (Inr (stripeCustomerId, sanityCustomerId), w1) \<Rightarrow>
                      (let metadata = checkout_metadata userId userEmail sanityCustomerId validatedItems
                       in if fails e CreateSession then (Inl (Thrown CreateSession), w1)
                          else (Inr \<lparr>cr_success = True, cr_url = new_session_url e, cr_error = None\<rparr>,
                                w1\<lparr>stripe_created := stripe_created w1 @
                                     [checkout_params e lineItems stripeCustomerId metadata]\<rparr>)))))"

text \<open>\<^verbatim>\<open>createCheckoutSession\<close>: the \<^verbatim>\<open>catch\<close> turns any exception into one fixed message.\<close>

definition createCheckoutSession :: "env \<Rightarrow> cart_item list \<Rightarrow> world \<Rightarrow> checkout_result \<times> world" where
  "createCheckoutSession e items w =
     (case createCheckoutSession_try e items w of
        (Inl err, w') \<Rightarrow>
          (\<lparr>cr_success = False, cr_url = None,
            cr_error = Some ''Something went wrong. Please try again.''\<rparr>, w')
      | (Inr result, w') \<Rightarrow> (result, w'))"

text \<open>What \<^verbatim>\<open>getCheckoutSession\<close> returns of a session.\<close>

record line_view =
  lv_name :: "string option"
  lv_quantity :: "int option"
  lv_amount :: int

record session_view =
  sv_id :: string
  sv_customerEmail :: "string option"
  sv_customerName :: "string option"
  sv_amountTotal :: "int option"
  sv_paymentStatus :: string
  sv_shippingAddress :: "stripe_address option"
  sv_lineItems :: "line_view list"

record get_session_result =
  gs_success :: bool
  gs_session :: "session_view option"
  gs_error :: "string option"

definition view_of :: "session \<Rightarrow> session_view" where
  "view_of s =
     \<lparr>sv_id = session_id s,
      sv_customerEmail = (case session_customer_details s of None \<Rightarrow> None | Some cd \<Rightarrow> cd_email cd),
      sv_customerName = (case session_customer_details s of None \<Rightarrow> None | Some cd \<Rightarrow> cd_name cd),
      sv_amountTotal = amount_total s,
      sv_paymentStatus = payment_status s,
      sv_shippingAddress =
        (case session_customer_details s of None \<Rightarrow> None | Some cd \<Rightarrow> cd_address cd),
      sv_lineItems =
        map (\<lambda>item. \<lparr>lv_name = li_description item, lv_quantity = li_quantity item,
                       lv_amount = li_amount_total item\<rparr>)
            (session_line_items s)\<rparr>"

text \<open>
  \<^verbatim>\<open>stripe.checkout.sessions.retrieve(sessionId, ...)\<close>: the session with that id, an error
  when there is none.
\<close>

definition retrieve_session :: "env \<Rightarrow> world \<Rightarrow> string \<Rightarrow> error + session" where
  "retrieve_session e w sessionId =
     (if fails e RetrieveSession then Inl (Thrown RetrieveSession)
      else (case find (\<lambda>s. session_id s = sessionId) (stripe_sessions w) of
              None \<Rightarrow> Inl (Thrown RetrieveSession)
            | Some s \<Rightarrow> Inr s))"

definition getCheckoutSession_try :: "env \<Rightarrow> string \<Rightarrow> world \<Rightarrow> error + get_session_result" where
  "getCheckoutSession_try e sessionId w =
     (if fails e Auth then Inl (Thrown Auth)
      else if \<not> truthy (auth_userId e)
      then Inr \<lparr>gs_success = False, gs_session = None, gs_error = Some ''Not authenticated''\<rparr>
      else (case retrieve_session e w sessionId of
              Inl err \<Rightarrow> Inl err
            | Inr session \<Rightarrow>
                if metadata_get session ''clerkUserId'' \<noteq> auth_userId e
                then Inr \<lparr>gs_success = False, gs_session = None,
                          gs_error = Some ''Session not found''\<rparr>
                else Inr \<lparr>gs_success = True, gs_session = Some (view_of session),
                          gs_error = None\<rparr>))"

text \<open>\<^verbatim>\<open>getCheckoutSession\<close>; it reads only, so the state is not returned.\<close>

definition getCheckoutSession :: "env \<Rightarrow> string \<Rightarrow> world \<Rightarrow> get_session_result" where
  "getCheckoutSession e sessionId w =
     (case getCheckoutSession_try e sessionId w of
        Inl err \<Rightarrow> \<lparr>gs_success = False, gs_session = None,
                     gs_error = Some ''Could not retrieve order details''\<rparr>
      | Inr result \<Rightarrow> result)"

section \<open>Notions used to state the properties\<close>

text \<open>
  What a list of patches takes from the stock of one product: the sum of the amounts of
  the patches on that product.
\<close>

definition ordered_quantity :: "(string \<times> jsnum option) list \<Rightarrow> string \<Rightarrow> int" where
  "ordered_quantity patches productId =
     sum_list (map (\<lambda>(p, q). case q of Some (Num n) \<Rightarrow> n | _ \<Rightarrow> 0)
                   (filter (\<lambda>(p, q). p = productId) patches))"

text \<open>
  The sum over the line items of an order of \<open>priceAtPurchase \<times> quantity\<close>, the right-hand
  side of the price-integrity property. A quantity that is not a number counts as 0.
\<close>

definition sum_price_times_quantity :: "order \<Rightarrow> real" where
  "sum_price_times_quantity ord =
     sum_list (map (\<lambda>it. priceAtPurchase it *
                          (case item_quantity it of Some (Num n) \<Rightarrow> real_of_int n | _ \<Rightarrow> 0))
                   (order_items ord))"

text \<open>
  A change of catalog prices. Prices are edited in the content studio, outside the source;
  all that matters here is that such an edit writes product documents only.
\<close>

definition reprice :: "(string \<Rightarrow> real option) \<Rightarrow> world \<Rightarrow> world" where
  "reprice new_price w =
     w\<lparr>products := map (\<lambda>p. p\<lparr>product_price := new_price (product_id p)\<rparr>) (products w)\<rparr>"

text \<open>The orders of one payment.\<close>

definition orders_of_payment :: "world \<Rightarrow> string \<Rightarrow> order list" where
  "orders_of_payment w stripePaymentId =
     filter (\<lambda>ord. order_stripePaymentId ord = stripePaymentId) (orders w)"

text \<open>
  The first transition, \<^verbatim>\<open>received\<close> to \<^verbatim>\<open>verified\<close>: the event of a request whose signature
  header is present and verifies, \<open>None\<close> when the header is missing or empty or
  \<^verbatim>\<open>constructEvent\<close> throws. This names the two tests \<^verbatim>\<open>POST\<close> makes before its \<^verbatim>\<open>switch\<close>.
\<close>

definition verified :: "env \<Rightarrow> request \<Rightarrow> event option" where
  "verified e req =
     (if \<not> truthy (stripe_signature req) then None
      else (case constructEvent e (body req) (the (stripe_signature req)) (webhookSecret e) of
              Inl message \<Rightarrow> None
            | Inr ev \<Rightarrow> Some ev))"

text \<open>
  The specification's contract for one cart item against the product snapshots: unavailable
  when no snapshot matches, out of stock when the snapshot's stock is 0 (a missing stock
  counts as 0), insufficient when the requested quantity exceeds the stock, else no failure.
  This is written from the specification, to compare the loop with.
\<close>

definition spec_item_failure :: "product list \<Rightarrow> cart_item \<Rightarrow> validation_error option" where
  "spec_item_failure snapshots item =
     (if \<not> list_ex (\<lambda>p. product_id p = ci_productId item) snapshots
      then Some (ProductUnavailable (ci_name item))
      else (let snapshot = the (find (\<lambda>p. product_id p = ci_productId item) snapshots);
                stock = (case product_stock snapshot of None \<Rightarrow> 0 | Some st \<Rightarrow> st)
            in if stock = 0 then Some (OutOfStock (product_name snapshot))
               else if stock < ci_quantity item
               then Some (InsufficientStock (product_stock snapshot) (product_name snapshot))
               else None))"


text \<open>
  The second and third tier of \<^verbatim>\<open>getOrCreateStripeCustomer\<close>, named: the provider customer
  the call settles on when the store has no link (the newest provider customer with the
  email, else the one it creates), and the provider's state after that.
\<close>

definition resolved_stripe_id :: "env \<Rightarrow> world \<Rightarrow> string \<Rightarrow> string" where
  "resolved_stripe_id e w email =
     (case list_stripe_customers w email of [] \<Rightarrow> new_stripe_id e | c # cs \<Rightarrow> sc_id c)"

definition with_stripe_customer :: "env \<Rightarrow> string \<Rightarrow> string \<Rightarrow> string \<Rightarrow> world \<Rightarrow> world" where
  "with_stripe_customer e email name clerkUserId w =
     (case list_stripe_customers w email of
        [] \<Rightarrow> w\<lparr>stripe_customers :=
                  \<lparr>sc_id = new_stripe_id e, sc_email = Some email, sc_name = Some name,
                    sc_clerkUserId = Some clerkUserId\<rparr> # stripe_customers w\<rparr>
      | c # cs \<Rightarrow> w)"

section \<open>A concrete scenario\<close>

text \<open>
  The scenario of the specification: one product \<^verbatim>\<open>p1\<close> at 10 pounds with 5 in stock, a cart
  of 2 of them, a paid session of 2000 pence, and its confirmation event.
\<close>

definition product1 :: product where
  "product1 = \<lparr>product_id = ''p1'', product_name = Some ''Chair'', product_price = Some 10,
                product_stock = Some 5, product_image = None\<rparr>"

definition session1 :: session where
  "session1 =
     \<lparr>session_id = ''cs_1'', payment_intent = ''pi_1'',
      session_metadata = Some
        [(''clerkUserId'', ''user_1''), (''userEmail'', ''ada@example.com''),
         (''sanityCustomerId'', ''customer_1''), (''productIds'', ''p1''),
         (''quantities'', ''2'')],
      amount_total = Some 2000, payment_status = ''paid'',
      session_customer_details = None,
      session_line_items =
        [\<lparr>li_description = Some ''Chair'', li_quantity = Some 2, li_amount_total = 2000\<rparr>]\<rparr>"

definition world1 :: world where
  "world1 = \<lparr>products = [product1], orders = [], customers = [], stripe_customers = [],
              stripe_sessions = [session1], stripe_created = []\<rparr>"

definition env1 :: env where
  "env1 =
     \<lparr>fails = (\<lambda>c. False), fl = (\<lambda>x. x),
      auth_userId = Some ''user_1'',
      current_user = Some \<lparr>emailAddresses = [''ada@example.com''], firstName = Some ''Ada'',
                            lastName = None\<rparr>,
      now_iso = ''2026-01-01T00:00:00.000Z'', now_base36 = ''MJV8K000'',
      random_base36 = ''X7Q2'', new_document_id = ''doc_1'', new_stripe_id = ''cus_1'',
      new_session_url = Some ''https://checkout.stripe.com/c/pay/cs_1'',
      NEXT_PUBLIC_BASE_URL = None, VERCEL_URL = None, webhookSecret = ''whsec_1'',
      constructEvent = (\<lambda>payload header secret.
        if payload = ''evt_1'' \<and> header = ''t=1,v1=5257'' \<and> secret = ''whsec_1''
        then Inr \<lparr>event_type = ''checkout.session.completed'', event_object = session1\<rparr>
        else Inl ''No signatures found matching the expected signature for payload'')\<rparr>"

text \<open>The same event with only the three fields the handler tests in its metadata.\<close>

definition session2 :: session where
  "session2 = session1\<lparr>session_metadata := Some
     [(''clerkUserId'', ''user_1''), (''productIds'', ''p1''), (''quantities'', ''2'')]\<rparr>"

definition world2 :: world where
  "world2 = world1\<lparr>stripe_sessions := [session2]\<rparr>"

text \<open>Requests: the signed one, and one whose body was altered after signing.\<close>

definition request1 :: request where
  "request1 = \<lparr>body = ''evt_1'', stripe_signature = Some ''t=1,v1=5257''\<rparr>"

definition request_tampered :: request where
  "request_tampered = \<lparr>body = ''evu_1'', stripe_signature = Some ''t=1,v1=5257''\<rparr>"

text \<open>An invocation whose verified event is of another kind, and one whose stock
  transaction fails.\<close>

definition env_other_kind :: env where
  "env_other_kind = env1\<lparr>constructEvent := (\<lambda>payload header secret.
     Inr \<lparr>event_type = ''payment_intent.succeeded'', event_object = session1\<rparr>)\<rparr>"

definition env_commit_fails :: env where
  "env_commit_fails = env1\<lparr>fails := (\<lambda>c. c = CommitStock)\<rparr>"

text \<open>The event with its \<^verbatim>\<open>quantities\<close> missing from the metadata.\<close>

definition session3 :: session where
  "session3 = session1\<lparr>session_metadata := Some
     [(''clerkUserId'', ''user_1''), (''userEmail'', ''ada@example.com''),
      (''sanityCustomerId'', ''customer_1''), (''productIds'', ''p1'')]\<rparr>"

text \<open>
  A store of four products and carts over it: the three-product cart with quantities 2, 1
  and 4, the same cart with other claimed prices, and a cart in which three items fail in
  the three ways, around one that passes.
\<close>

definition product2 :: product where
  "product2 = \<lparr>product_id = ''p2'', product_name = Some ''Lamp'', product_price = Some (4599 / 100),
                product_stock = Some 3, product_image = Some ''https://cdn.example.com/lamp.png''\<rparr>"

definition product3 :: product where
  "product3 = \<lparr>product_id = ''p3'', product_name = Some ''Rug'', product_price = Some 120,
                product_stock = Some 10, product_image = None\<rparr>"

definition product4 :: product where
  "product4 = \<lparr>product_id = ''p4'', product_name = Some ''Desk'', product_price = Some 250,
                product_stock = Some 0, product_image = None\<rparr>"

definition world3 :: world where
  "world3 = \<lparr>products = [product1, product2, product3, product4], orders = [], customers = [],
              stripe_customers = [], stripe_sessions = [], stripe_created = []\<rparr>"

definition cart3 :: "cart_item list" where
  "cart3 =
     [\<lparr>ci_productId = ''p1'', ci_name = ''Chair'', ci_price = 10, ci_quantity = 2, ci_image = None\<rparr>,
      \<lparr>ci_productId = ''p2'', ci_name = ''Lamp'', ci_price = 4599 / 100, ci_quantity = 1,
        ci_image = None\<rparr>,
      \<lparr>ci_productId = ''p3'', ci_name = ''Rug'', ci_price = 120, ci_quantity = 4, ci_image = None\<rparr>]"


definition cart_failing :: "cart_item list" where
  "cart_failing =
     [\<lparr>ci_productId = ''p9'', ci_name = ''Sofa'', ci_price = 900, ci_quantity = 1, ci_image = None\<rparr>,
      \<lparr>ci_productId = ''p1'', ci_name = ''Chair'', ci_price = 10, ci_quantity = 2, ci_image = None\<rparr>,
      \<lparr>ci_productId = ''p4'', ci_name = ''Desk'', ci_price = 250, ci_quantity = 1, ci_image = None\<rparr>,
      \<lparr>ci_productId = ''p2'', ci_name = ''Lamp'', ci_price = 4599 / 100, ci_quantity = 7,
        ci_image = None\<rparr>]"

text \<open>Another signed-in user, and nobody signed in.\<close>

definition env_other_user :: env where
  "env_other_user = env1\<lparr>auth_userId := Some ''user_2''\<rparr>"

definition env_signed_out :: env where
  "env_signed_out = env1\<lparr>auth_userId := None, current_user := None\<rparr>"

text \<open>
  Two states for the customer resolution. In the first an earlier attempt created the
  provider customer and stopped before writing the link. In the second the buyer \<^verbatim>\<open>user_1\<close>
  is linked under an email address that is no longer theirs. And a later invocation, to which
  the stores would give other identifiers.
\<close>

definition world_partial :: world where
  "world_partial = world3\<lparr>stripe_customers :=
     [\<lparr>sc_id = ''cus_7'', sc_email = Some ''ada@example.com'', sc_name = Some ''Ada'',
       sc_clerkUserId = Some ''user_1''\<rparr>]\<rparr>"

definition world_moved :: world where
  "world_moved = world3\<lparr>
     customers :=
       [\<lparr>customer_id = ''doc_0'', customer_email = Some ''ada@old.example.com'',
         customer_name = Some ''Ada'', customer_clerkUserId = Some ''user_1'',
         customer_stripeCustomerId = Some ''cus_0'',
         customer_createdAt = Some ''2025-06-01T00:00:00.000Z''\<rparr>],
     stripe_customers :=
       [\<lparr>sc_id = ''cus_0'', sc_email = Some ''ada@old.example.com'', sc_name = Some ''Ada'',
         sc_clerkUserId = Some ''user_1''\<rparr>]\<rparr>"

definition env2 :: env where
  "env2 = env1\<lparr>new_document_id := ''doc_2'', new_stripe_id := ''cus_2'',
               now_iso := ''2026-01-02T00:00:00.000Z''\<rparr>"

section \<open>Properties of the Payment Confirmation Handler\<close>

subsection \<open>The paths through \<^verbatim>\<open>handleCheckoutCompleted\<close>\<close>

lemma handler_error_status:
  "verified e req = Some ev \<Longrightarrow> event_type ev = ''checkout.session.completed'' \<Longrightarrow>
   handleCheckoutCompleted e (event_object ev) w = (r, w') \<Longrightarrow>
   POST e req w = ((case r of Inl err \<Rightarrow> Inl err
                    | Inr out \<Rightarrow> Inr \<lparr>status = 200, json = [(''received'', ''true'')]\<rparr>), w')"
  by (auto simp: POST_def verified_def split: sum.splits if_splits)

lemma handler_fetch_fails:
  "fails e FetchOrder \<Longrightarrow> handleCheckoutCompleted e s w = (Inl (Thrown FetchOrder), w)"
  by (simp add: handleCheckoutCompleted_def)

lemma handler_deduplicated:
  "\<not> fails e FetchOrder \<Longrightarrow> ORDER_BY_STRIPE_PAYMENT_ID_QUERY w (payment_intent s) = Some ord \<Longrightarrow>
   handleCheckoutCompleted e s w = (Inr Deduplicated, w)"
  by (simp add: handleCheckoutCompleted_def)

lemma handler_missing_metadata:
  "\<not> fails e FetchOrder \<Longrightarrow> ORDER_BY_STRIPE_PAYMENT_ID_QUERY w (payment_intent s) = None \<Longrightarrow>
   \<not> truthy (metadata_get s ''clerkUserId'') \<or> \<not> truthy (metadata_get s ''productIds'')
     \<or> \<not> truthy (metadata_get s ''quantities'') \<Longrightarrow>
   handleCheckoutCompleted e s w = (Inr MissingMetadata, w)"
  by (auto simp add: handleCheckoutCompleted_def Let_def)

lemma handler_materialize:
  assumes "\<not> fails e FetchOrder" "ORDER_BY_STRIPE_PAYMENT_ID_QUERY w (payment_intent s) = None"
    "truthy (metadata_get s ''clerkUserId'')" "truthy (metadata_get s ''productIds'')"
    "truthy (metadata_get s ''quantities'')"
  shows "handleCheckoutCompleted e s w =
    (let productIds = decode_productIds (the (metadata_get s ''productIds''));
         quantities = decode_quantities (the (metadata_get s ''quantities''))
     in case listLineItems e w (session_id s) of
          Inl err \<Rightarrow> (Inl err, w)
        | Inr lineItems \<Rightarrow>
            if fails e CreateOrder then (Inl (Thrown CreateOrder), w)
            else
              (let w1 = w\<lparr>orders := orders w @
                  [new_order e s (the (metadata_get s ''clerkUserId'')) productIds quantities lineItems]\<rparr>
               in if fails e CommitStock then (Inl (Thrown CommitStock), w1)
                  else
                    (case transaction
                            (stock_patches productIds quantities)
                            (products w1) of
                       None \<Rightarrow> (Inl (Thrown CommitStock), w1)
                     | Some ps \<Rightarrow> (Inr StockAdjusted, w1\<lparr>products := ps\<rparr>))))"
  using assms by (simp add: handleCheckoutCompleted_def Let_def)

subsection \<open>Signature verification\<close>

text \<open>
  C3. A request whose \<^verbatim>\<open>stripe-signature\<close> header is missing or empty, or for which
  \<^verbatim>\<open>constructEvent\<close> throws on the raw body, the header and the secret, is answered with
  status 400 and an error message, and the state of both stores is the one before the
  request: no order, no stock write, no customer write. \<^verbatim>\<open>constructEvent\<close> is the provider
  SDK's; that it throws when the body differs from the signed one in a byte is its contract,
  and the request with the altered body below is such a case.
\<close>

theorem signature_rejected_before_side_effects:
  "verified e req = None \<Longrightarrow>
   snd (POST e req w) = w \<and>
   (\<exists>message. fst (POST e req w) = Inr \<lparr>status = 400, json = [(''error'', message)]\<rparr>)"
  by (auto simp: POST_def verified_def split: sum.splits if_splits)

text \<open>The signed request verifies; the altered body and the missing header do not, and
  leave the state as it was.\<close>

theorem signature_rejected_before_side_effects_witness:
  "verified env1 request1 \<noteq> None \<and> verified env1 request_tampered = None \<and>
   verified env1 (request1\<lparr>stripe_signature := None\<rparr>) = None \<and>
   snd (POST env1 request_tampered world1) = world1 \<and>
   fst (POST env1 request_tampered world1) =
     Inr \<lparr>status = 400, json = [(''error'',
       ''Webhook Error: No signatures found matching the expected signature for payload'')]\<rparr> \<and>
   snd (POST env1 (request1\<lparr>stripe_signature := None\<rparr>) world1) = world1"
proof -
  have v: "verified env1 request1 \<noteq> None"
    by (simp add: verified_def env1_def request1_def truthy_def)
  have v0: "verified env1 request_tampered = None" by code_simp
  have v1: "verified env1 (request1\<lparr>stripe_signature := None\<rparr>) = None" by code_simp
  have r: "fst (POST env1 request_tampered world1) =
     Inr \<lparr>status = 400, json = [(''error'',
       ''Webhook Error: No signatures found matching the expected signature for payload'')]\<rparr>"
    by code_simp
  show ?thesis
    using signature_rejected_before_side_effects [OF v0, of world1]
      signature_rejected_before_side_effects [OF v1, of world1] v v0 v1 r
    by simp
qed

subsection \<open>The response contract\<close>

text \<open>
  C4. What the provider sees. A request that fails verification gets 400. A verified event
  of another kind than \<^verbatim>\<open>checkout.session.completed\<close> gets 200 and changes nothing. A
  verified \<^verbatim>\<open>checkout.session.completed\<close> event whose payment already has an order gets 200
  and changes nothing; in general it gets 500 exactly when \<^verbatim>\<open>handleCheckoutCompleted\<close> throws,
  200 otherwise. And the handler throws whenever the order lookup fails, the line-item
  listing fails, the order creation fails, or the stock transaction fails to commit.
\<close>

theorem webhook_response_contract:
  "(verified e req = None \<longrightarrow> http_status (fst (POST e req w)) = 400) \<and>
   (verified e req = Some ev \<and> event_type ev \<noteq> ''checkout.session.completed'' \<longrightarrow>
      http_status (fst (POST e req w)) = 200 \<and> snd (POST e req w) = w) \<and>
   (verified e req = Some ev \<and> event_type ev = ''checkout.session.completed'' \<longrightarrow>
      (\<not> fails e FetchOrder \<and>
       ORDER_BY_STRIPE_PAYMENT_ID_QUERY w (payment_intent (event_object ev)) \<noteq> None \<longrightarrow>
         http_status (fst (POST e req w)) = 200 \<and> snd (POST e req w) = w) \<and>
      (case handleCheckoutCompleted e (event_object ev) w of
         (Inl err, w') \<Rightarrow> http_status (fst (POST e req w)) = 500
       | (Inr out, w') \<Rightarrow> http_status (fst (POST e req w)) = 200)) \<and>
   (fails e FetchOrder \<longrightarrow> fst (handleCheckoutCompleted e s w) = Inl (Thrown FetchOrder)) \<and>
   (\<not> fails e FetchOrder \<and> ORDER_BY_STRIPE_PAYMENT_ID_QUERY w (payment_intent s) = None \<and>
    truthy (metadata_get s ''clerkUserId'') \<and> truthy (metadata_get s ''productIds'') \<and>
    truthy (metadata_get s ''quantities'') \<longrightarrow>
      (case listLineItems e w (session_id s) of
         Inl err \<Rightarrow> fst (handleCheckoutCompleted e s w) = Inl err
       | Inr lineItems \<Rightarrow>
           (fails e CreateOrder \<longrightarrow> fst (handleCheckoutCompleted e s w) = Inl (Thrown CreateOrder)) \<and>
           (\<not> fails e CreateOrder \<and>
            (fails e CommitStock \<or>
             transaction
               (stock_patches (decode_productIds (the (metadata_get s ''productIds'')))
                  (decode_quantities (the (metadata_get s ''quantities''))))
               (products w) = None) \<longrightarrow>
              fst (handleCheckoutCompleted e s w) = Inl (Thrown CommitStock))))"
proof (intro conjI impI)
  assume "verified e req = None"
  then show "http_status (fst (POST e req w)) = 400"
    by (auto simp: POST_def verified_def http_status_def split: sum.splits if_splits)
next
  assume "verified e req = Some ev \<and> event_type ev \<noteq> ''checkout.session.completed''"
  then show "http_status (fst (POST e req w)) = 200" "snd (POST e req w) = w"
    by (auto simp: POST_def verified_def http_status_def split: sum.splits if_splits)
next
  assume v: "verified e req = Some ev \<and> event_type ev = ''checkout.session.completed''"
  obtain r w' where h: "handleCheckoutCompleted e (event_object ev) w = (r, w')"
    by (cases "handleCheckoutCompleted e (event_object ev) w")
  from v h have p: "POST e req w = ((case r of Inl err \<Rightarrow> Inl err
                    | Inr out \<Rightarrow> Inr \<lparr>status = 200, json = [(''received'', ''true'')]\<rparr>), w')"
    by (simp add: handler_error_status)
  show "case handleCheckoutCompleted e (event_object ev) w of
         (Inl err, w') \<Rightarrow> http_status (fst (POST e req w)) = 500
       | (Inr out, w') \<Rightarrow> http_status (fst (POST e req w)) = 200"
    by (simp add: h p http_status_def split: sum.splits)
  assume d: "\<not> fails e FetchOrder \<and>
       ORDER_BY_STRIPE_PAYMENT_ID_QUERY w (payment_intent (event_object ev)) \<noteq> None"
  then have "handleCheckoutCompleted e (event_object ev) w = (Inr Deduplicated, w)"
    by (auto simp: handler_deduplicated)
  with h p show "http_status (fst (POST e req w)) = 200" "snd (POST e req w) = w"
    by (auto simp: http_status_def)
next
  assume "fails e FetchOrder"
  then show "fst (handleCheckoutCompleted e s w) = Inl (Thrown FetchOrder)"
    by (simp add: handler_fetch_fails)
next
  assume a: "\<not> fails e FetchOrder \<and> ORDER_BY_STRIPE_PAYMENT_ID_QUERY w (payment_intent s) = None \<and>
    truthy (metadata_get s ''clerkUserId'') \<and> truthy (metadata_get s ''productIds'') \<and>
    truthy (metadata_get s ''quantities'')"
  then show "case listLineItems e w (session_id s) of
         Inl err \<Rightarrow> fst (handleCheckoutCompleted e s w) = Inl err
       | Inr lineItems \<Rightarrow>
           (fails e CreateOrder \<longrightarrow> fst (handleCheckoutCompleted e s w) = Inl (Thrown CreateOrder)) \<and>
           (\<not> fails e CreateOrder \<and>
            (fails e CommitStock \<or>
             transaction
               (stock_patches (decode_productIds (the (metadata_get s ''productIds'')))
                  (decode_quantities (the (metadata_get s ''quantities''))))
               (products w) = None) \<longrightarrow>
              fst (handleCheckoutCompleted e s w) = Inl (Thrown CommitStock))"
    by (auto simp: handler_materialize Let_def split: sum.splits)
qed

text \<open>An altered body: 400. Another event kind: 200, nothing changed. The first delivery
  and its redelivery: 200. A failing stock transaction: 500.\<close>

theorem webhook_response_contract_witness:
  "http_status (fst (POST env1 request_tampered world1)) = 400 \<and>
   http_status (fst (POST env_other_kind request1 world1)) = 200 \<and>
   snd (POST env_other_kind request1 world1) = world1 \<and>
   http_status (fst (POST env1 request1 world1)) = 200 \<and>
   http_status (fst (POST env1 request1 (snd (POST env1 request1 world1)))) = 200 \<and>
   http_status (fst (POST env_commit_fails request1 world1)) = 500"
proof -
  let ?ev = "\<lparr>event_type = ''checkout.session.completed'', event_object = session1\<rparr>"
  let ?ev' = "\<lparr>event_type = ''payment_intent.succeeded'', event_object = session1\<rparr>"
  have v0: "verified env1 request_tampered = None" by code_simp
  have v1: "verified env1 request1 = Some ?ev"
    by (simp add: verified_def env1_def request1_def truthy_def)
  have v2: "verified env_other_kind request1 = Some ?ev'"
    by (simp add: verified_def env_other_kind_def env1_def request1_def truthy_def)
  have v3: "verified env_commit_fails request1 = Some ?ev"
    by (simp add: verified_def env_commit_fails_def env1_def request1_def truthy_def)
  have k: "event_type ?ev' \<noteq> ''checkout.session.completed''" by simp
  have h1: "fst (handleCheckoutCompleted env1 (event_object ?ev) world1) = Inr StockAdjusted"
    by code_simp
  have h2: "fst (handleCheckoutCompleted env1 (event_object ?ev) (snd (POST env1 request1 world1)))
              = Inr Deduplicated"
    by code_simp
  have h3: "fst (handleCheckoutCompleted env_commit_fails (event_object ?ev) world1)
              = Inl (Thrown CommitStock)"
    by code_simp
  have a: "http_status (fst (POST env1 request_tampered world1)) = 400"
    using webhook_response_contract [of env1 request_tampered world1 ?ev session1] v0 by simp
  have b: "http_status (fst (POST env_other_kind request1 world1)) = 200 \<and>
           snd (POST env_other_kind request1 world1) = world1"
    using webhook_response_contract [of env_other_kind request1 world1 ?ev' session1] v2 k by simp
  have c: "http_status (fst (POST env1 request1 world1)) = 200"
  proof (cases "handleCheckoutCompleted env1 (event_object ?ev) world1")
    case (Pair r w')
    with h1 webhook_response_contract [of env1 request1 world1 ?ev session1] v1
    show ?thesis by simp
  qed
  have d: "http_status (fst (POST env1 request1 (snd (POST env1 request1 world1)))) = 200"
  proof (cases "handleCheckoutCompleted env1 (event_object ?ev) (snd (POST env1 request1 world1))")
    case (Pair r w')
    with h2 webhook_response_contract
      [of env1 request1 "snd (POST env1 request1 world1)" ?ev session1] v1
    show ?thesis by simp
  qed
  have e: "http_status (fst (POST env_commit_fails request1 world1)) = 500"
  proof (cases "handleCheckoutCompleted env_commit_fails (event_object ?ev) world1")
    case (Pair r w')
    with h3 webhook_response_contract [of env_commit_fails request1 world1 ?ev session1] v3
    show ?thesis by simp
  qed
  from a b c d e show ?thesis by simp
qed

subsection \<open>Incomplete metadata\<close>

text \<open>
  C5, as the code has it. On an event with no existing order, the handler stops at its
  metadata test, returning normally with no order created and no stock changed, exactly
  when \<^verbatim>\<open>clerkUserId\<close>, \<^verbatim>\<open>productIds\<close> or \<^verbatim>\<open>quantities\<close> is absent or empty in the metadata.
  With those three present it goes on, whatever \<^verbatim>\<open>userEmail\<close> and \<^verbatim>\<open>sanityCustomerId\<close> are:
  when the line items can be listed and the order can be written, the order is created, for
  the buyer of the metadata; its email is the \<^verbatim>\<open>userEmail\<close> of the metadata, and when that is
  absent the email of the session's \<^verbatim>\<open>customer_details\<close>, and when that is absent too the
  empty string; and it refers to the customer record only when \<^verbatim>\<open>sanityCustomerId\<close> is
  present and not empty.
\<close>

theorem missing_metadata_aborts:
  "\<not> fails e FetchOrder \<and> ORDER_BY_STRIPE_PAYMENT_ID_QUERY w (payment_intent s) = None \<Longrightarrow>
   (\<not> truthy (metadata_get s ''clerkUserId'') \<or> \<not> truthy (metadata_get s ''productIds'')
      \<or> \<not> truthy (metadata_get s ''quantities'') \<longrightarrow>
      handleCheckoutCompleted e s w = (Inr MissingMetadata, w)) \<and>
   (truthy (metadata_get s ''clerkUserId'') \<and> truthy (metadata_get s ''productIds'')
      \<and> truthy (metadata_get s ''quantities'') \<longrightarrow>
      fst (handleCheckoutCompleted e s w) \<noteq> Inr MissingMetadata \<and>
      (listLineItems e w (session_id s) = Inr lineItems \<and> \<not> fails e CreateOrder \<longrightarrow>
         (\<exists>ord. orders (snd (handleCheckoutCompleted e s w)) = orders w @ [ord] \<and>
            order_stripePaymentId ord = payment_intent s \<and>
            order_clerkUserId ord = the (metadata_get s ''clerkUserId'') \<and>
            order_email ord =
              (case metadata_get s ''userEmail'' of
                 Some userEmail \<Rightarrow> userEmail
               | None \<Rightarrow>
                   (case session_customer_details s of
                      None \<Rightarrow> []
                    | Some cd \<Rightarrow> (case cd_email cd of None \<Rightarrow> [] | Some m \<Rightarrow> m))) \<and>
            order_customer ord =
              (if truthy (metadata_get s ''sanityCustomerId'')
               then metadata_get s ''sanityCustomerId'' else None))))"
proof (intro conjI impI)
  assume a: "\<not> fails e FetchOrder \<and> ORDER_BY_STRIPE_PAYMENT_ID_QUERY w (payment_intent s) = None"
  {
    assume "\<not> truthy (metadata_get s ''clerkUserId'') \<or> \<not> truthy (metadata_get s ''productIds'')
      \<or> \<not> truthy (metadata_get s ''quantities'')"
    with a show "handleCheckoutCompleted e s w = (Inr MissingMetadata, w)"
      by (simp add: handler_missing_metadata)
  }
  assume m: "truthy (metadata_get s ''clerkUserId'') \<and> truthy (metadata_get s ''productIds'')
      \<and> truthy (metadata_get s ''quantities'')"
  from a m show "fst (handleCheckoutCompleted e s w) \<noteq> Inr MissingMetadata"
    by (auto simp: handler_materialize Let_def split: sum.splits option.splits)
  assume l: "listLineItems e w (session_id s) = Inr lineItems \<and> \<not> fails e CreateOrder"
  let ?ord = "new_order e s (the (metadata_get s ''clerkUserId''))
                (decode_productIds (the (metadata_get s ''productIds'')))
                (decode_quantities (the (metadata_get s ''quantities''))) lineItems"
  from a m l have "orders (snd (handleCheckoutCompleted e s w)) = orders w @ [?ord]"
    by (auto simp: handler_materialize Let_def split: option.splits)
  then show "\<exists>ord. orders (snd (handleCheckoutCompleted e s w)) = orders w @ [ord] \<and>
            order_stripePaymentId ord = payment_intent s \<and>
            order_clerkUserId ord = the (metadata_get s ''clerkUserId'') \<and>
            order_email ord =
              (case metadata_get s ''userEmail'' of
                 Some userEmail \<Rightarrow> userEmail
               | None \<Rightarrow>
                   (case session_customer_details s of
                      None \<Rightarrow> []
                    | Some cd \<Rightarrow> (case cd_email cd of None \<Rightarrow> [] | Some m \<Rightarrow> m))) \<and>
            order_customer ord =
              (if truthy (metadata_get s ''sanityCustomerId'')
               then metadata_get s ''sanityCustomerId'' else None)"
    by (intro exI [of _ ?ord]) (simp add: new_order_def)
qed

text \<open>The event without quantities stops at the test. The event with neither email nor
  customer id gives an order with the empty email and no customer reference.\<close>

theorem missing_metadata_aborts_witness:
  "handleCheckoutCompleted env1 session3 world1 = (Inr MissingMetadata, world1) \<and>
   fst (handleCheckoutCompleted env1 session1 world1) \<noteq> Inr MissingMetadata \<and>
   metadata_get session2 ''userEmail'' = None \<and>
   metadata_get session2 ''sanityCustomerId'' = None \<and>
   map order_email (orders (snd (handleCheckoutCompleted env1 session2 world2))) = [[]] \<and>
   map order_customer (orders (snd (handleCheckoutCompleted env1 session2 world2))) = [None] \<and>
   map order_clerkUserId (orders (snd (handleCheckoutCompleted env1 session2 world2))) = [''user_1'']"
proof -
  have h: "\<not> fails env1 FetchOrder \<and>
           ORDER_BY_STRIPE_PAYMENT_ID_QUERY world1 (payment_intent session3) = None"
    by code_simp
  have h1: "\<not> fails env1 FetchOrder \<and>
           ORDER_BY_STRIPE_PAYMENT_ID_QUERY world1 (payment_intent session1) = None"
    by code_simp
  have h2: "\<not> fails env1 FetchOrder \<and>
           ORDER_BY_STRIPE_PAYMENT_ID_QUERY world2 (payment_intent session2) = None"
    by code_simp
  have m: "\<not> truthy (metadata_get session3 ''clerkUserId'') \<or>
           \<not> truthy (metadata_get session3 ''productIds'') \<or>
           \<not> truthy (metadata_get session3 ''quantities'')"
    by code_simp
  have m1: "truthy (metadata_get session1 ''clerkUserId'') \<and>
            truthy (metadata_get session1 ''productIds'') \<and>
            truthy (metadata_get session1 ''quantities'')"
    by code_simp
  have m2: "truthy (metadata_get session2 ''clerkUserId'') \<and>
            truthy (metadata_get session2 ''productIds'') \<and>
            truthy (metadata_get session2 ''quantities'')"
    by code_simp
  have l2: "listLineItems env1 world2 (session_id session2) = Inr (session_line_items session2) \<and>
            \<not> fails env1 CreateOrder"
    by code_simp
  have n: "metadata_get session2 ''userEmail'' = None" "metadata_get session2 ''sanityCustomerId'' = None"
    by code_simp+
  have c: "session_customer_details session2 = None" "the (metadata_get session2 ''clerkUserId'') = ''user_1''"
    by code_simp+
  have k: "orders world2 = []" by code_simp
  have A: "handleCheckoutCompleted env1 session3 world1 = (Inr MissingMetadata, world1)"
    by (rule missing_metadata_aborts [OF h, THEN conjunct1, THEN mp, OF m])
  have B: "fst (handleCheckoutCompleted env1 session1 world1) \<noteq> Inr MissingMetadata"
    by (rule missing_metadata_aborts [OF h1, where lineItems = "[]", THEN conjunct2, THEN mp, OF m1,
          THEN conjunct1])
  from missing_metadata_aborts [OF h2, where lineItems = "session_line_items session2",
          THEN conjunct2, THEN mp, OF m2, THEN conjunct2, THEN mp, OF l2]
  obtain ord where o: "orders (snd (handleCheckoutCompleted env1 session2 world2)) = orders world2 @ [ord]"
    and e: "order_email ord =
              (case metadata_get session2 ''userEmail'' of
                 Some userEmail \<Rightarrow> userEmail
               | None \<Rightarrow>
                   (case session_customer_details session2 of
                      None \<Rightarrow> []
                    | Some cd \<Rightarrow> (case cd_email cd of None \<Rightarrow> [] | Some m \<Rightarrow> m)))"
    and r: "order_customer ord =
              (if truthy (metadata_get session2 ''sanityCustomerId'')
               then metadata_get session2 ''sanityCustomerId'' else None)"
    and u: "order_clerkUserId ord = the (metadata_get session2 ''clerkUserId'')"
    by blast
  from e have e': "order_email ord = []" unfolding n c by simp
  from r have r': "order_customer ord = None" unfolding n by simp
  from u have u': "order_clerkUserId ord = ''user_1''" unfolding c .
  have C: "map order_email (orders (snd (handleCheckoutCompleted env1 session2 world2))) = [[]]"
          "map order_customer (orders (snd (handleCheckoutCompleted env1 session2 world2))) = [None]"
          "map order_clerkUserId (orders (snd (handleCheckoutCompleted env1 session2 world2))) = [''user_1'']"
    unfolding o k using e' r' u' by simp_all
  from A B n C show ?thesis by blast
qed

text \<open>
  For the buyer's email and the internal customer id the handler does not abort: the event
  below has neither in its metadata, and the handler creates the order and takes 2 from the
  stock of \<^verbatim>\<open>p1\<close>.
\<close>

theorem absent_email_counterexample:
  "\<not> fails env1 FetchOrder \<and>
   ORDER_BY_STRIPE_PAYMENT_ID_QUERY world2 (payment_intent session2) = None \<and>
   metadata_get session2 ''userEmail'' = None \<and>
   metadata_get session2 ''sanityCustomerId'' = None \<and>
   fst (handleCheckoutCompleted env1 session2 world2) = Inr StockAdjusted \<and>
   map order_stripePaymentId (orders (snd (handleCheckoutCompleted env1 session2 world2))) = [''pi_1''] \<and>
   map product_stock (products world2) = [Some 5] \<and>
   map product_stock (products (snd (handleCheckoutCompleted env1 session2 world2))) = [Some 3]"
  by code_simp

subsection \<open>Exactly-once materialization\<close>

text \<open>What a committed transaction does to the stock, and when it commits.\<close>

lemma dec_stock_eq:
  "dec_stock productId q ps = Some ps' \<Longrightarrow>
   ps' = map (\<lambda>p. p\<lparr>product_stock :=
                 map_option (\<lambda>st. st - ordered_quantity [(productId, q)] (product_id p)) (product_stock p)\<rparr>) ps"
  by (auto simp: dec_stock_def ordered_quantity_def option.map_ident split: option.splits jsnum.splits if_splits)

lemma ordered_quantity_Cons:
  "ordered_quantity (x # patches) pid = ordered_quantity [x] pid + ordered_quantity patches pid"
  by (cases x) (simp add: ordered_quantity_def)

lemma transaction_stock:
  "transaction patches ps = Some ps' \<Longrightarrow>
   ps' = map (\<lambda>p. p\<lparr>product_stock :=
                 map_option (\<lambda>st. st - ordered_quantity patches (product_id p)) (product_stock p)\<rparr>) ps"
proof (induction patches arbitrary: ps)
  case Nil
  then show ?case by (simp add: ordered_quantity_def option.map_ident)
next
  case (Cons x patches)
  obtain productId q where x: "x = (productId, q)" by (cases x)
  from Cons.prems x obtain ps1 where d: "dec_stock productId q ps = Some ps1"
    and t: "transaction patches ps1 = Some ps'"
    by (auto split: option.splits)
  have "ps' = map (\<lambda>p. p\<lparr>product_stock :=
                 map_option (\<lambda>st. st - ordered_quantity patches (product_id p)) (product_stock p)\<rparr>) ps1"
    using Cons.IH [OF t] .
  also have "ps1 = map (\<lambda>p. p\<lparr>product_stock :=
                 map_option (\<lambda>st. st - ordered_quantity [x] (product_id p)) (product_stock p)\<rparr>) ps"
    using dec_stock_eq [OF d] x by simp
  finally show ?case
    by (simp add: ordered_quantity_Cons [of x patches] option.map_comp comp_def algebra_simps)
qed

lemma handler_orders_cases:
  "handleCheckoutCompleted e s w = (r, w') \<Longrightarrow>
   orders w' = orders w \<or>
   (ORDER_BY_STRIPE_PAYMENT_ID_QUERY w (payment_intent s) = None \<and>
    (\<exists>ord. orders w' = orders w @ [ord] \<and> order_stripePaymentId ord = payment_intent s))"
  by (auto simp: handleCheckoutCompleted_def Let_def new_order_def
      split: if_splits option.splits sum.splits)

lemma query_None_iff:
  "ORDER_BY_STRIPE_PAYMENT_ID_QUERY w pid = None \<longleftrightarrow> pid \<notin> set (map order_stripePaymentId (orders w))"
  by (auto simp: ORDER_BY_STRIPE_PAYMENT_ID_QUERY_def find_None_iff)

lemma handler_preserves_distinct:
  assumes "handleCheckoutCompleted e s w = (r, w')"
    and "distinct (map order_stripePaymentId (orders w))"
  shows "distinct (map order_stripePaymentId (orders w'))"
  using handler_orders_cases [OF assms(1)] assms(2)
  by (auto simp: query_None_iff)

lemma redeliver_preserves_distinct:
  "distinct (map order_stripePaymentId (orders w)) \<Longrightarrow>
   distinct (map order_stripePaymentId (orders (snd (redeliver es s w))))"
proof (induction es arbitrary: w)
  case Nil
  then show ?case by simp
next
  case (Cons e es)
  obtain r w' where h: "handleCheckoutCompleted e s w = (r, w')"
    by (cases "handleCheckoutCompleted e s w")
  from handler_preserves_distinct [OF h Cons.prems]
  have "distinct (map order_stripePaymentId (orders (snd (redeliver es s w'))))"
    by (rule Cons.IH)
  with h show ?case by (auto split: prod.splits)
qed

lemma handler_existing_order:
  "ORDER_BY_STRIPE_PAYMENT_ID_QUERY w (payment_intent s) \<noteq> None \<Longrightarrow>
   handleCheckoutCompleted e s w =
     (if fails e FetchOrder then Inl (Thrown FetchOrder) else Inr Deduplicated, w)"
  by (auto simp: handleCheckoutCompleted_def)

lemma redeliver_existing_order:
  "ORDER_BY_STRIPE_PAYMENT_ID_QUERY w (payment_intent s) \<noteq> None \<Longrightarrow>
   redeliver es s w =
     (map (\<lambda>e. if fails e FetchOrder then Inl (Thrown FetchOrder) else Inr Deduplicated) es, w)"
  by (induction es) (simp_all add: handler_existing_order)

lemma handler_stock_adjusted:
  assumes "handleCheckoutCompleted e s w = (Inr StockAdjusted, w1)"
  shows "ORDER_BY_STRIPE_PAYMENT_ID_QUERY w (payment_intent s) = None"
    and "\<exists>ord. orders w1 = orders w @ [ord] \<and> order_stripePaymentId ord = payment_intent s"
    and "transaction (stock_patches (decode_productIds (the (metadata_get s ''productIds'')))
                        (decode_quantities (the (metadata_get s ''quantities''))))
           (products w) = Some (products w1)"
  using assms
  by (auto simp: handleCheckoutCompleted_def Let_def new_order_def
      split: if_splits option.splits sum.splits)



lemma dec_stock_ids:
  "dec_stock productId q ps = Some ps' \<Longrightarrow> map product_id ps' = map product_id ps"
  by (auto simp: dec_stock_def split: option.splits jsnum.splits if_splits)

lemma dec_stock_succeeds:
  "list_ex (\<lambda>p. product_id p = productId) ps \<Longrightarrow> \<exists>ps'. dec_stock productId (Some (Num n)) ps = Some ps'"
  by (simp add: dec_stock_def)

lemma transaction_succeeds:
  "\<forall>(productId, q) \<in> set patches.
      productId \<in> set (map product_id ps) \<and> (\<exists>n. q = Some (Num n)) \<Longrightarrow>
   \<exists>ps'. transaction patches ps = Some ps'"
proof (induction patches arbitrary: ps)
  case Nil
  then show ?case by simp
next
  case (Cons x patches)
  obtain productId q where x: "x = (productId, q)" by (cases x)
  from Cons.prems x obtain n where q: "q = Some (Num n)"
    and m: "productId \<in> set (map product_id ps)" by auto
  from m have "list_ex (\<lambda>p. product_id p = productId) ps"
    by (auto simp: list_ex_iff)
  then obtain ps1 where d: "dec_stock productId (Some (Num n)) ps = Some ps1"
    using dec_stock_succeeds by blast
  from dec_stock_ids [OF d] Cons.prems
  have "\<forall>(productId, q) \<in> set patches.
          productId \<in> set (map product_id ps1) \<and> (\<exists>n. q = Some (Num n))"
    by auto
  from Cons.IH [OF this] obtain ps' where "transaction patches ps1 = Some ps'" by blast
  with d x q show ?case by simp
qed

lemma first_delivery_then_duplicates:
  assumes fresh: "ORDER_BY_STRIPE_PAYMENT_ID_QUERY w (payment_intent s) = None"
    and metadata: "truthy (metadata_get s ''clerkUserId'') \<and> truthy (metadata_get s ''productIds'')
                   \<and> truthy (metadata_get s ''quantities'')"
    and no_failure: "\<not> fails e FetchOrder \<and> \<not> fails e ListLineItems \<and> \<not> fails e CreateOrder
                     \<and> \<not> fails e CommitStock"
    and listed: "find (\<lambda>x. session_id x = session_id s) (stripe_sessions w) = Some provider_session"
    and patches: "patches = stock_patches (decode_productIds (the (metadata_get s ''productIds'')))
                                (decode_quantities (the (metadata_get s ''quantities'')))"
    and applicable: "\<forall>(productId, q) \<in> set patches.
                       productId \<in> set (map product_id (products w)) \<and> (\<exists>n. q = Some (Num n))"
    and created: "ord = new_order e s (the (metadata_get s ''clerkUserId''))
                          (decode_productIds (the (metadata_get s ''productIds'')))
                          (decode_quantities (the (metadata_get s ''quantities'')))
                          (session_line_items provider_session)"
  shows "redeliver (e # es) s w =
           (Inr StockAdjusted #
              map (\<lambda>e'. if fails e' FetchOrder then Inl (Thrown FetchOrder) else Inr Deduplicated) es,
            w\<lparr>orders := orders w @ [ord],
              products :=
                map (\<lambda>p. p\<lparr>product_stock :=
                       map_option (\<lambda>st. st - ordered_quantity patches (product_id p))
                         (product_stock p)\<rparr>)
                    (products w)\<rparr>)
         \<and> orders_of_payment (snd (redeliver (e # es) s w)) (payment_intent s) = [ord]"
proof -
  let ?w1 = "w\<lparr>orders := orders w @ [ord]\<rparr>"
  let ?ps = "map (\<lambda>p. p\<lparr>product_stock :=
                       map_option (\<lambda>st. st - ordered_quantity patches (product_id p))
                         (product_stock p)\<rparr>)
                 (products w)"
  from transaction_succeeds [OF applicable] obtain ps' where t: "transaction patches (products w) = Some ps'"
    by blast
  from transaction_stock [OF t] have ps': "ps' = ?ps" .
  have l: "listLineItems e w (session_id s) = Inr (session_line_items provider_session)"
    using no_failure listed by (simp add: listLineItems_def)
  have h: "handleCheckoutCompleted e s w = (Inr StockAdjusted, ?w1\<lparr>products := ?ps\<rparr>)"
    using fresh metadata no_failure l t ps' patches created
    by (simp add: handler_materialize Let_def)
  have p: "order_stripePaymentId ord = payment_intent s"
    by (simp add: created new_order_def)
  then have "ORDER_BY_STRIPE_PAYMENT_ID_QUERY (?w1\<lparr>products := ?ps\<rparr>) (payment_intent s) \<noteq> None"
    by (auto simp: query_None_iff)
  then have r: "redeliver (e # es) s w =
           (Inr StockAdjusted #
              map (\<lambda>e'. if fails e' FetchOrder then Inl (Thrown FetchOrder) else Inr Deduplicated) es,
            ?w1\<lparr>products := ?ps\<rparr>)"
    by (simp add: h redeliver_existing_order)
  from fresh have "filter (\<lambda>x. order_stripePaymentId x = payment_intent s) (orders w) = []"
    by (force simp: query_None_iff filter_empty_conv)
  with p have o: "orders_of_payment (snd (redeliver (e # es) s w)) (payment_intent s) = [ord]"
    unfolding r orders_of_payment_def by simp
  from r o show ?thesis by blast
qed

text \<open>
  Deliveries after a first one that completes. Take a \<^verbatim>\<open>checkout.session.completed\<close> event
  whose payment has no order yet, whose metadata has the three fields the handler tests,
  whose session the provider can list, and whose patches the store can apply (every product
  exists, every quantity is a number). Deliver it \<open>1 + length es\<close> times in a row, the first
  time with no call failing, the later times under any conditions. Then the first delivery
  creates the order and commits the stock transaction; every later delivery finds the order
  by its payment id and returns with the state untouched (or fails in the lookup itself,
  without a change either). The final state has exactly one order of that payment, and the
  stock of each product is its initial stock less the ordered quantity, once. And whatever
  the event and whatever happens in its deliveries, no two orders share a payment id
  afterwards if none did before.
\<close>

lemma sequential_deliveries:
  "(distinct (map order_stripePaymentId (orders w)) \<longrightarrow>
      distinct (map order_stripePaymentId (orders (snd (redeliver deliveries s w))))) \<and>
   (let patches = stock_patches (decode_productIds (the (metadata_get s ''productIds'')))
                    (decode_quantities (the (metadata_get s ''quantities'')));
        ord = new_order e s (the (metadata_get s ''clerkUserId''))
                (decode_productIds (the (metadata_get s ''productIds'')))
                (decode_quantities (the (metadata_get s ''quantities'')))
                (session_line_items provider_session)
    in ORDER_BY_STRIPE_PAYMENT_ID_QUERY w (payment_intent s) = None \<and>
       truthy (metadata_get s ''clerkUserId'') \<and> truthy (metadata_get s ''productIds'') \<and>
       truthy (metadata_get s ''quantities'') \<and>
       \<not> fails e FetchOrder \<and> \<not> fails e ListLineItems \<and> \<not> fails e CreateOrder \<and>
       \<not> fails e CommitStock \<and>
       find (\<lambda>x. session_id x = session_id s) (stripe_sessions w) = Some provider_session \<and>
       (\<forall>(productId, q) \<in> set patches.
           productId \<in> set (map product_id (products w)) \<and> (\<exists>n. q = Some (Num n))) \<longrightarrow>
       redeliver (e # es) s w =
         (Inr StockAdjusted #
            map (\<lambda>e'. if fails e' FetchOrder then Inl (Thrown FetchOrder) else Inr Deduplicated) es,
          w\<lparr>orders := orders w @ [ord],
            products :=
              map (\<lambda>p. p\<lparr>product_stock :=
                     map_option (\<lambda>st. st - ordered_quantity patches (product_id p))
                       (product_stock p)\<rparr>)
                  (products w)\<rparr>) \<and>
       orders_of_payment (snd (redeliver (e # es) s w)) (payment_intent s) = [ord])"
proof (intro conjI)
  show "distinct (map order_stripePaymentId (orders w)) \<longrightarrow>
      distinct (map order_stripePaymentId (orders (snd (redeliver deliveries s w))))"
    using redeliver_preserves_distinct by blast
next
  show "let patches = stock_patches (decode_productIds (the (metadata_get s ''productIds'')))
                    (decode_quantities (the (metadata_get s ''quantities'')));
        ord = new_order e s (the (metadata_get s ''clerkUserId''))
                (decode_productIds (the (metadata_get s ''productIds'')))
                (decode_quantities (the (metadata_get s ''quantities'')))
                (session_line_items provider_session)
    in ORDER_BY_STRIPE_PAYMENT_ID_QUERY w (payment_intent s) = None \<and>
       truthy (metadata_get s ''clerkUserId'') \<and> truthy (metadata_get s ''productIds'') \<and>
       truthy (metadata_get s ''quantities'') \<and>
       \<not> fails e FetchOrder \<and> \<not> fails e ListLineItems \<and> \<not> fails e CreateOrder \<and>
       \<not> fails e CommitStock \<and>
       find (\<lambda>x. session_id x = session_id s) (stripe_sessions w) = Some provider_session \<and>
       (\<forall>(productId, q) \<in> set patches.
           productId \<in> set (map product_id (products w)) \<and> (\<exists>n. q = Some (Num n))) \<longrightarrow>
       redeliver (e # es) s w =
         (Inr StockAdjusted #
            map (\<lambda>e'. if fails e' FetchOrder then Inl (Thrown FetchOrder) else Inr Deduplicated) es,
          w\<lparr>orders := orders w @ [ord],
            products :=
              map (\<lambda>p. p\<lparr>product_stock :=
                     map_option (\<lambda>st. st - ordered_quantity patches (product_id p))
                       (product_stock p)\<rparr>)
                  (products w)\<rparr>) \<and>
       orders_of_payment (snd (redeliver (e # es) s w)) (payment_intent s) = [ord]"
    unfolding Let_def
  proof (intro impI, elim conjE)
    assume a: "ORDER_BY_STRIPE_PAYMENT_ID_QUERY w (payment_intent s) = None"
      and b: "truthy (metadata_get s ''clerkUserId'')" "truthy (metadata_get s ''productIds'')"
        "truthy (metadata_get s ''quantities'')"
      and c: "\<not> fails e FetchOrder" "\<not> fails e ListLineItems" "\<not> fails e CreateOrder"
        "\<not> fails e CommitStock"
      and d: "find (\<lambda>x. session_id x = session_id s) (stripe_sessions w) = Some provider_session"
      and f: "\<forall>(productId, q) \<in> set (stock_patches
                  (decode_productIds (the (metadata_get s ''productIds'')))
                  (decode_quantities (the (metadata_get s ''quantities'')))).
           productId \<in> set (map product_id (products w)) \<and> (\<exists>n. q = Some (Num n))"
    from b have b': "truthy (metadata_get s ''clerkUserId'') \<and> truthy (metadata_get s ''productIds'')
                   \<and> truthy (metadata_get s ''quantities'')" by blast
    from c have c': "\<not> fails e FetchOrder \<and> \<not> fails e ListLineItems \<and> \<not> fails e CreateOrder
                     \<and> \<not> fails e CommitStock" by blast
    show "redeliver (e # es) s w =
         (Inr StockAdjusted #
            map (\<lambda>e'. if fails e' FetchOrder then Inl (Thrown FetchOrder) else Inr Deduplicated) es,
          w\<lparr>orders := orders w @
               [new_order e s (the (metadata_get s ''clerkUserId''))
                (decode_productIds (the (metadata_get s ''productIds'')))
                (decode_quantities (the (metadata_get s ''quantities'')))
                (session_line_items provider_session)],
            products :=
              map (\<lambda>p. p\<lparr>product_stock :=
                     map_option (\<lambda>st. st - ordered_quantity
                        (stock_patches (decode_productIds (the (metadata_get s ''productIds'')))
                          (decode_quantities (the (metadata_get s ''quantities''))))
                        (product_id p))
                       (product_stock p)\<rparr>)
                  (products w)\<rparr>) \<and>
       orders_of_payment (snd (redeliver (e # es) s w)) (payment_intent s) =
         [new_order e s (the (metadata_get s ''clerkUserId''))
                (decode_productIds (the (metadata_get s ''productIds'')))
                (decode_quantities (the (metadata_get s ''quantities'')))
                (session_line_items provider_session)]"
      by (rule first_delivery_then_duplicates [OF a b' c' d refl f refl])
  qed
qed

text \<open>Three deliveries in the scenario, the last under a failing store: one order, and
  the stock of \<^verbatim>\<open>p1\<close> goes from 5 to 3. And two deliveries of which the first fails in the
  stock transaction: still no two orders of one payment.\<close>

lemma sequential_deliveries_in_scenario:
  "fst (redeliver [env1, env1, env_commit_fails] session1 world1) =
     [Inr StockAdjusted, Inr Deduplicated, Inr Deduplicated] \<and>
   map order_id (orders (snd (redeliver [env1, env1, env_commit_fails] session1 world1))) = [''doc_1''] \<and>
   map product_stock (products world1) = [Some 5] \<and>
   map product_stock (products (snd (redeliver [env1, env1, env_commit_fails] session1 world1))) = [Some 3] \<and>
   distinct (map order_stripePaymentId
     (orders (snd (redeliver [env_commit_fails, env1] session1 world1))))"
proof -
  let ?patches = "stock_patches (decode_productIds (the (metadata_get session1 ''productIds'')))
                                (decode_quantities (the (metadata_get session1 ''quantities'')))"
  let ?ord = "new_order env1 session1 (the (metadata_get session1 ''clerkUserId''))
                          (decode_productIds (the (metadata_get session1 ''productIds'')))
                          (decode_quantities (the (metadata_get session1 ''quantities'')))
                          (session_line_items session1)"
  have a: "ORDER_BY_STRIPE_PAYMENT_ID_QUERY world1 (payment_intent session1) = None"
    by code_simp
  have b: "truthy (metadata_get session1 ''clerkUserId'') \<and> truthy (metadata_get session1 ''productIds'')
                   \<and> truthy (metadata_get session1 ''quantities'')"
    by code_simp
  have c: "\<not> fails env1 FetchOrder \<and> \<not> fails env1 ListLineItems \<and> \<not> fails env1 CreateOrder
                     \<and> \<not> fails env1 CommitStock"
    by code_simp
  have d: "find (\<lambda>x. session_id x = session_id session1) (stripe_sessions world1) = Some session1"
    by (simp add: world1_def)
  have p: "?patches = [(''p1'', Some (Num 2))]"
    by code_simp
  have f: "\<forall>(productId, q) \<in> set ?patches.
                       productId \<in> set (map product_id (products world1)) \<and> (\<exists>n. q = Some (Num n))"
    unfolding p by (simp add: world1_def product1_def)
  have g: "map order_id [?ord] = [''doc_1'']" by code_simp
  have h: "map product_stock (map (\<lambda>p. p\<lparr>product_stock :=
                       map_option (\<lambda>st. st - ordered_quantity ?patches (product_id p))
                         (product_stock p)\<rparr>)
                    (products world1)) = [Some 3]"
    by code_simp
  have i: "map product_stock (products world1) = [Some 5]" by code_simp
  have j: "map (\<lambda>e'. if fails e' FetchOrder then Inl (Thrown FetchOrder) else Inr Deduplicated)
               [env1, env_commit_fails] = [Inr Deduplicated, Inr Deduplicated :: error + outcome]"
    by code_simp
  have k: "orders world1 = []" by (simp add: world1_def)
  note T = sequential_deliveries [where w = world1 and s = session1 and e = env1
      and es = "[env1, env_commit_fails]" and provider_session = session1
      and deliveries = "[env_commit_fails, env1]"]
  from a b c d f have hyp: "ORDER_BY_STRIPE_PAYMENT_ID_QUERY world1 (payment_intent session1) = None \<and>
       truthy (metadata_get session1 ''clerkUserId'') \<and> truthy (metadata_get session1 ''productIds'') \<and>
       truthy (metadata_get session1 ''quantities'') \<and>
       \<not> fails env1 FetchOrder \<and> \<not> fails env1 ListLineItems \<and> \<not> fails env1 CreateOrder \<and>
       \<not> fails env1 CommitStock \<and>
       find (\<lambda>x. session_id x = session_id session1) (stripe_sessions world1) = Some session1 \<and>
       (\<forall>(productId, q) \<in> set ?patches.
           productId \<in> set (map product_id (products world1)) \<and> (\<exists>n. q = Some (Num n)))"
    by blast
  have r: "redeliver [env1, env1, env_commit_fails] session1 world1 =
           (Inr StockAdjusted #
              map (\<lambda>e'. if fails e' FetchOrder then Inl (Thrown FetchOrder) else Inr Deduplicated)
                [env1, env_commit_fails],
            world1\<lparr>orders := orders world1 @ [?ord],
              products :=
                map (\<lambda>p. p\<lparr>product_stock :=
                       map_option (\<lambda>st. st - ordered_quantity ?patches (product_id p))
                         (product_stock p)\<rparr>)
                    (products world1)\<rparr>)"
    by (rule T [THEN conjunct2, unfolded Let_def, THEN mp, OF hyp, THEN conjunct1])
  have "distinct (map order_stripePaymentId (orders world1))" by (simp add: k)
  with T [THEN conjunct1]
  have u: "distinct (map order_stripePaymentId
     (orders (snd (redeliver [env_commit_fails, env1] session1 world1))))"
    by (rule mp)
  have v: "fst (redeliver [env1, env1, env_commit_fails] session1 world1) =
            [Inr StockAdjusted, Inr Deduplicated, Inr Deduplicated] \<and>
      map order_id (orders (snd (redeliver [env1, env1, env_commit_fails] session1 world1))) = [''doc_1''] \<and>
      map product_stock (products (snd (redeliver [env1, env1, env_commit_fails] session1 world1))) = [Some 3]"
    unfolding r j using g h k by simp
  from v i u show ?thesis by blast
qed

text \<open>
  C1. The same event delivered N times in a row should leave exactly one order and each
  product's stock decremented exactly once. There is never a second order (above). The stock
  half fails when the first delivery does not get through its stock transaction. The handler
  writes the order first and commits the transaction afterwards, and its guard against
  duplicates looks for the order only. So when the commit of the first delivery fails, the
  exception asks the provider to deliver again, as the comment at the rethrow intends for
  transient failures; and every redelivery, under a store that works again, finds the order
  and stops. In the scenario, after one failed and three good deliveries there is one order
  and the stock of \<^verbatim>\<open>p1\<close> is still 5, where one decrement makes it 3.
\<close>

theorem stock_never_adjusted_after_failed_commit:
  "ORDER_BY_STRIPE_PAYMENT_ID_QUERY world1 (payment_intent session1) = None \<and>
   fails env_commit_fails CommitStock \<and> \<not> fails env1 CommitStock \<and> \<not> fails env1 FetchOrder \<and>
   fst (redeliver [env_commit_fails, env1, env1, env1] session1 world1) =
     [Inl (Thrown CommitStock), Inr Deduplicated, Inr Deduplicated, Inr Deduplicated] \<and>
   map order_stripePaymentId
     (orders (snd (redeliver [env_commit_fails, env1, env1, env1] session1 world1))) = [''pi_1''] \<and>
   map (map item_quantity \<circ> order_items)
     (orders (snd (redeliver [env_commit_fails, env1, env1, env1] session1 world1))) = [[Some (Num 2)]] \<and>
   map product_stock (products world1) = [Some 5] \<and>
   map product_stock
     (products (snd (redeliver [env_commit_fails, env1, env1, env1] session1 world1))) = [Some 5] \<and>
   map product_stock (products (snd (redeliver [env1, env1, env1, env1] session1 world1))) = [Some 3]"
  by code_simp

text \<open>So four deliveries of which the first fails in the commit leave the stock where it
  was, and not where four deliveries without a failure leave it.\<close>

theorem stock_never_adjusted_after_failed_commit_witness:
  "map product_stock
     (products (snd (redeliver [env_commit_fails, env1, env1, env1] session1 world1))) =
   map product_stock (products world1) \<and>
   map product_stock
     (products (snd (redeliver [env_commit_fails, env1, env1, env1] session1 world1))) \<noteq>
   map product_stock (products (snd (redeliver [env1, env1, env1, env1] session1 world1)))"
  using stock_never_adjusted_after_failed_commit by simp

text \<open>
  No failing call is needed for this. When the product was deleted after the checkout, the
  store rejects the transaction of the first delivery, after the order is written; the
  redeliveries stop at the order just the same.
\<close>

lemma deleted_product_then_redelivery:
  "fst (redeliver [env1, env1] session1 (world1\<lparr>products := [product2]\<rparr>)) =
     [Inl (Thrown CommitStock), Inr Deduplicated] \<and>
   map order_stripePaymentId
     (orders (snd (redeliver [env1, env1] session1 (world1\<lparr>products := [product2]\<rparr>)))) = [''pi_1''] \<and>
   products (snd (redeliver [env1, env1] session1 (world1\<lparr>products := [product2]\<rparr>))) =
     [product2]"
  by code_simp

subsection \<open>The amounts stored on an order\<close>

lemma map_enumerate_index:
  "map (\<lambda>(i, x). f i) (enumerate n xs) = map f [n..<n + length xs]"
proof (induction xs arbitrary: n)
  case Nil
  then show ?case by simp
next
  case (Cons x xs)
  have "[n..<n + length (x # xs)] = n # [Suc n..<Suc n + length xs]"
    using upt_conv_Cons [of n "Suc n + length xs"] by simp
  with Cons.IH [of "Suc n"] show ?case by simp
qed

lemma orderItems_prices:
  "map priceAtPurchase (orderItems e productIds quantities lineItems) =
   map (line_price e lineItems) [0..<length productIds]"
proof -
  have "map priceAtPurchase (orderItems e productIds quantities lineItems) =
        map (\<lambda>(i, x). line_price e lineItems i) (enumerate 0 productIds)"
    by (simp add: orderItems_def split_def)
  then show ?thesis by (simp add: map_enumerate_index)
qed

lemma dec_stock_reprice:
  "dec_stock productId q (map (\<lambda>p. p\<lparr>product_price := new_price (product_id p)\<rparr>) ps) =
   map_option (map (\<lambda>p. p\<lparr>product_price := new_price (product_id p)\<rparr>)) (dec_stock productId q ps)"
  by (auto simp: dec_stock_def list_ex_iff split: option.splits jsnum.splits)

lemma transaction_reprice:
  "transaction patches (map (\<lambda>p. p\<lparr>product_price := new_price (product_id p)\<rparr>) ps) =
   map_option (map (\<lambda>p. p\<lparr>product_price := new_price (product_id p)\<rparr>)) (transaction patches ps)"
proof (induction patches arbitrary: ps)
  case Nil
  then show ?case by simp
next
  case (Cons x patches)
  obtain productId q where x: "x = (productId, q)" by (cases x)
  show ?case
    by (cases "dec_stock productId q ps") (simp_all add: x dec_stock_reprice Cons.IH)
qed

lemma reprice_simps:
  "orders (reprice new_price w) = orders w"
  "stripe_sessions (reprice new_price w) = stripe_sessions w"
  "products (reprice new_price w) = map (\<lambda>p. p\<lparr>product_price := new_price (product_id p)\<rparr>) (products w)"
  "reprice new_price (w\<lparr>orders := os\<rparr>) = (reprice new_price w)\<lparr>orders := os\<rparr>"
  "reprice new_price (w\<lparr>products := ps\<rparr>) =
     w\<lparr>products := map (\<lambda>p. p\<lparr>product_price := new_price (product_id p)\<rparr>) ps\<rparr>"
  "(reprice new_price w)\<lparr>orders := os, products := ps\<rparr> = w\<lparr>orders := os, products := ps\<rparr>"
  by (simp_all add: reprice_def)

lemma handler_reprice:
  assumes "handleCheckoutCompleted e s w = (r, w')"
  shows "handleCheckoutCompleted e s (reprice new_price w) = (r, reprice new_price w')"
proof -
  have q: "ORDER_BY_STRIPE_PAYMENT_ID_QUERY (reprice new_price w) = ORDER_BY_STRIPE_PAYMENT_ID_QUERY w"
    by (simp add: ORDER_BY_STRIPE_PAYMENT_ID_QUERY_def reprice_simps fun_eq_iff)
  have l: "listLineItems e (reprice new_price w) = listLineItems e w"
    by (simp add: listLineItems_def reprice_simps fun_eq_iff)
  show ?thesis
    using assms
    by (auto simp: handleCheckoutCompleted_def Let_def q l reprice_simps transaction_reprice
        split: if_splits option.splits sum.splits)
qed

lemma handler_created_order:
  assumes "handleCheckoutCompleted e s w = (r, w')" and "orders w' \<noteq> orders w"
  shows "\<exists>lineItems. listLineItems e w (session_id s) = Inr lineItems \<and>
     orders w' = orders w @
       [new_order e s (the (metadata_get s ''clerkUserId''))
          (decode_productIds (the (metadata_get s ''productIds'')))
          (decode_quantities (the (metadata_get s ''quantities''))) lineItems]"
  using assms
  by (auto simp: handleCheckoutCompleted_def Let_def split: if_splits option.splits sum.splits)

text \<open>
  What the handler stores. When it creates an order, the total is the session's
  \<^verbatim>\<open>amount_total\<close> divided by 100, and the \<open>priceAtPurchase\<close> of the item at index \<open>i\<close> is
  computed from the line the provider lists at index \<open>i\<close> (\<open>line_price\<close>: its amount divided
  by 100, and 0 when there is no such line). Nothing the handler does depends on a catalog
  price: with the catalog repriced in any way it returns the same result and leaves the
  same orders, and repricing afterwards leaves the orders as they are.
\<close>

lemma order_amounts_from_provider:
  assumes "handleCheckoutCompleted e s w = (r, w')" and "orders w' \<noteq> orders w"
  shows "\<exists>lineItems ord.
     listLineItems e w (session_id s) = Inr lineItems \<and> orders w' = orders w @ [ord] \<and>
     order_total ord =
       js_div (fl e) (real_of_int (case amount_total s of None \<Rightarrow> 0 | Some a \<Rightarrow> a)) 100 \<and>
     map priceAtPurchase (order_items ord) =
       map (line_price e lineItems) [0..<length (order_items ord)] \<and>
     handleCheckoutCompleted e s (reprice new_price w) = (r, reprice new_price w') \<and>
     orders (reprice new_price w') = orders w'"
proof -
  from handler_created_order [OF assms] obtain lineItems where
    l: "listLineItems e w (session_id s) = Inr lineItems" and
    o: "orders w' = orders w @
       [new_order e s (the (metadata_get s ''clerkUserId''))
          (decode_productIds (the (metadata_get s ''productIds'')))
          (decode_quantities (the (metadata_get s ''quantities''))) lineItems]"
    by blast
  let ?ord = "new_order e s (the (metadata_get s ''clerkUserId''))
          (decode_productIds (the (metadata_get s ''productIds'')))
          (decode_quantities (the (metadata_get s ''quantities''))) lineItems"
  have t: "order_total ?ord =
       js_div (fl e) (real_of_int (case amount_total s of None \<Rightarrow> 0 | Some a \<Rightarrow> a)) 100"
    by (simp add: new_order_def)
  have n: "length (order_items ?ord) = length (decode_productIds (the (metadata_get s ''productIds'')))"
    by (simp add: new_order_def orderItems_def)
  have p: "map priceAtPurchase (order_items ?ord) =
       map (line_price e lineItems) [0..<length (order_items ?ord)]"
    unfolding n by (simp add: new_order_def orderItems_prices)
  from l o t p handler_reprice [OF assms(1)] show ?thesis
    by (auto simp: reprice_simps)
qed

text \<open>The scenario: total 20 and one item at 20, also when the chair is repriced to 12
  before the event arrives.\<close>

lemma order_amounts_in_scenario:
  "map order_total (orders (snd (handleCheckoutCompleted env1 session1 world1))) = [20] \<and>
   map (map priceAtPurchase \<circ> order_items)
     (orders (snd (handleCheckoutCompleted env1 session1 world1))) = [[20]] \<and>
   map order_total (orders (snd (handleCheckoutCompleted env1 session1
       (reprice (\<lambda>productId. Some 12) world1)))) = [20]"
proof -
  obtain r w' where h: "handleCheckoutCompleted env1 session1 world1 = (r, w')"
    by (cases "handleCheckoutCompleted env1 session1 world1")
  have "map order_id (orders (snd (handleCheckoutCompleted env1 session1 world1))) = [''doc_1'']"
    by code_simp
  with h have m: "map order_id (orders w') = [''doc_1'']" by simp
  have k: "orders world1 = []" by (simp add: world1_def)
  from m k have c: "orders w' \<noteq> orders world1" by auto
  have l: "listLineItems env1 world1 (session_id session1) = Inr (session_line_items session1)"
    by (simp add: listLineItems_def env1_def world1_def)
  have a: "js_div (fl env1)
             (real_of_int (case amount_total session1 of None \<Rightarrow> 0 | Some a \<Rightarrow> a)) 100 = 20"
    by code_simp
  have b: "map (line_price env1 (session_line_items session1)) [0..<1] = [20]"
    by code_simp
  have "map (length \<circ> order_items) (orders (snd (handleCheckoutCompleted env1 session1 world1))) = [1]"
    by code_simp
  with h have n: "map (length \<circ> order_items) (orders w') = [1]" by simp
  from order_amounts_from_provider [OF h c, of "\<lambda>productId. Some 12"]
  obtain lineItems ord where
        l': "listLineItems env1 world1 (session_id session1) = Inr lineItems"
    and o: "orders w' = orders world1 @ [ord]"
    and t: "order_total ord =
         js_div (fl env1) (real_of_int (case amount_total session1 of None \<Rightarrow> 0 | Some a \<Rightarrow> a)) 100"
    and p: "map priceAtPurchase (order_items ord) =
              map (line_price env1 lineItems) [0..<length (order_items ord)]"
    and i: "handleCheckoutCompleted env1 session1 (reprice (\<lambda>productId. Some 12) world1) =
              (r, reprice (\<lambda>productId. Some 12) w')"
    and f: "orders (reprice (\<lambda>productId. Some 12) w') = orders w'"
    by blast
  from l l' have e: "lineItems = session_line_items session1" by simp
  from n o k have n': "length (order_items ord) = 1" by simp
  from p have p': "map priceAtPurchase (order_items ord) = [20]"
    unfolding e n' b .
  show ?thesis
    unfolding h i snd_conv f o k using t a p' by simp
qed

text \<open>
  C2. The total of an order should be the sum over its items of
  \<open>priceAtPurchase \<times> quantity\<close>, and stay so when catalog prices change. The second half holds:
  the order keeps what was stored (above). The first half does not hold for a quantity
  above 1. The handler stores as \<open>priceAtPurchase\<close> the provider's \<^verbatim>\<open>amount_total\<close> of the
  line, which is the amount of the whole line, quantity included; the documentation of the
  order queries (\<^verbatim>\<open>src/sanity/queries/orders.ts\<close>) calls the field the price saved at the
  time of purchase, to be compared with store prices, and the checkout path prices per unit.
  In the scenario 2 chairs at 10 pounds give an order with total 20 whose only item has
  quantity 2 and \<open>priceAtPurchase\<close> 20, so the sum of \<open>priceAtPurchase \<times> quantity\<close> is 40.
\<close>

theorem order_total_is_not_sum_of_lines:
  "fst (handleCheckoutCompleted env1 session1 world1) = Inr StockAdjusted \<and>
   map order_total (orders (snd (handleCheckoutCompleted env1 session1 world1))) = [20] \<and>
   map (map item_quantity \<circ> order_items) (orders (snd (handleCheckoutCompleted env1 session1 world1)))
     = [[Some (Num 2)]] \<and>
   map (map priceAtPurchase \<circ> order_items) (orders (snd (handleCheckoutCompleted env1 session1 world1)))
     = [[20]] \<and>
   map sum_price_times_quantity (orders (snd (handleCheckoutCompleted env1 session1 world1))) = [40]"
  by code_simp

text \<open>So the two sides of the property differ on the order of the scenario.\<close>

theorem order_total_is_not_sum_of_lines_witness:
  "map sum_price_times_quantity (orders (snd (handleCheckoutCompleted env1 session1 world1))) \<noteq>
   map order_total (orders (snd (handleCheckoutCompleted env1 session1 world1)))"
  using order_total_is_not_sum_of_lines by simp

section \<open>Properties of the Cart Validator and the Checkout Session Initiator\<close>

subsection \<open>Ownership of a retrieved session\<close>

text \<open>
  C10. \<^verbatim>\<open>getCheckoutSession\<close> answers a caller who is not signed in with the failure
  \<^verbatim>\<open>Not authenticated\<close>, and a signed-in caller whose user id is not the \<^verbatim>\<open>clerkUserId\<close> of
  the session's metadata with the failure \<^verbatim>\<open>Session not found\<close>, in both cases with no
  session data in the result. It returns the details of the session to a signed-in caller
  whose user id is the one in the metadata, and only then: whenever the result carries
  session data or reports success, the caller is signed in and the data are those of the
  retrieved session, whose metadata names the caller.
\<close>

theorem session_ownership:
  "(\<not> fails e Auth \<and> \<not> truthy (auth_userId e) \<longrightarrow>
      getCheckoutSession e sessionId w =
        \<lparr>gs_success = False, gs_session = None, gs_error = Some ''Not authenticated''\<rparr>) \<and>
   (\<not> fails e Auth \<and> truthy (auth_userId e) \<and> retrieve_session e w sessionId = Inr session \<and>
    metadata_get session ''clerkUserId'' \<noteq> auth_userId e \<longrightarrow>
      getCheckoutSession e sessionId w =
        \<lparr>gs_success = False, gs_session = None, gs_error = Some ''Session not found''\<rparr>) \<and>
   (\<not> fails e Auth \<and> truthy (auth_userId e) \<and> retrieve_session e w sessionId = Inr session \<and>
    metadata_get session ''clerkUserId'' = auth_userId e \<longrightarrow>
      getCheckoutSession e sessionId w =
        \<lparr>gs_success = True, gs_session = Some (view_of session), gs_error = None\<rparr>) \<and>
   (gs_session (getCheckoutSession e sessionId w) \<noteq> None \<or> gs_success (getCheckoutSession e sessionId w) \<longrightarrow>
      truthy (auth_userId e) \<and>
      (\<exists>s. retrieve_session e w sessionId = Inr s \<and>
           metadata_get s ''clerkUserId'' = auth_userId e \<and>
           gs_session (getCheckoutSession e sessionId w) = Some (view_of s)))"
  by (auto simp: getCheckoutSession_def getCheckoutSession_try_def split: sum.splits if_splits)

text \<open>The owner gets the session of the scenario, another user and a signed-out caller
  do not.\<close>

theorem session_ownership_witness:
  "getCheckoutSession env_signed_out ''cs_1'' world1 =
     \<lparr>gs_success = False, gs_session = None, gs_error = Some ''Not authenticated''\<rparr> \<and>
   getCheckoutSession env_other_user ''cs_1'' world1 =
     \<lparr>gs_success = False, gs_session = None, gs_error = Some ''Session not found''\<rparr> \<and>
   getCheckoutSession env1 ''cs_1'' world1 =
     \<lparr>gs_success = True, gs_session = Some (view_of session1), gs_error = None\<rparr> \<and>
   sv_amountTotal (view_of session1) = Some 2000"
proof -
  have a: "\<not> fails env_signed_out Auth \<and> \<not> truthy (auth_userId env_signed_out)"
    by code_simp
  have b: "\<not> fails env_other_user Auth \<and> truthy (auth_userId env_other_user)"
    by code_simp
  have c: "\<not> fails env1 Auth \<and> truthy (auth_userId env1)"
    by code_simp
  have r: "retrieve_session env1 world1 ''cs_1'' = Inr session1"
    by (simp add: retrieve_session_def env1_def world1_def session1_def)
  have r': "retrieve_session env_other_user world1 ''cs_1'' = Inr session1"
    by (simp add: retrieve_session_def env_other_user_def env1_def world1_def session1_def)
  have m: "metadata_get session1 ''clerkUserId'' \<noteq> auth_userId env_other_user"
    by code_simp
  have m': "metadata_get session1 ''clerkUserId'' = auth_userId env1"
    by code_simp
  have v: "sv_amountTotal (view_of session1) = Some 2000"
    by code_simp
  have A: "getCheckoutSession env_signed_out ''cs_1'' world1 =
     \<lparr>gs_success = False, gs_session = None, gs_error = Some ''Not authenticated''\<rparr>"
    by (rule session_ownership [of env_signed_out "''cs_1''" world1 session1,
          THEN conjunct1, THEN mp, OF a])
  from b r' m have hb: "\<not> fails env_other_user Auth \<and> truthy (auth_userId env_other_user) \<and>
      retrieve_session env_other_user world1 ''cs_1'' = Inr session1 \<and>
      metadata_get session1 ''clerkUserId'' \<noteq> auth_userId env_other_user"
    by blast
  have B: "getCheckoutSession env_other_user ''cs_1'' world1 =
     \<lparr>gs_success = False, gs_session = None, gs_error = Some ''Session not found''\<rparr>"
    by (rule session_ownership [of env_other_user "''cs_1''" world1 session1,
          THEN conjunct2, THEN conjunct1, THEN mp, OF hb])
  from c r m' have hc: "\<not> fails env1 Auth \<and> truthy (auth_userId env1) \<and>
      retrieve_session env1 world1 ''cs_1'' = Inr session1 \<and>
      metadata_get session1 ''clerkUserId'' = auth_userId env1"
    by blast
  have C: "getCheckoutSession env1 ''cs_1'' world1 =
     \<lparr>gs_success = True, gs_session = Some (view_of session1), gs_error = None\<rparr>"
    by (rule session_ownership [of env1 "''cs_1''" world1 session1,
          THEN conjunct2, THEN conjunct2, THEN conjunct1, THEN mp, OF hc])
  from A B C v show ?thesis by blast
qed

subsection \<open>Cart validation\<close>

lemma find_filter_same:
  "(\<And>x. P x \<Longrightarrow> Q x) \<Longrightarrow> find P (filter Q xs) = find P xs"
  by (induction xs) auto

lemma list_ex_filter_same:
  "(\<And>x. P x \<Longrightarrow> Q x) \<Longrightarrow> list_ex P (filter Q xs) = list_ex P xs"
  by (induction xs) auto

lemma spec_item_failure_query:
  "ci_productId item \<in> set ids \<Longrightarrow>
   spec_item_failure (PRODUCTS_BY_IDS_QUERY w ids) item = spec_item_failure (products w) item"
proof -
  assume m: "ci_productId item \<in> set ids"
  have f: "find (\<lambda>p. product_id p = ci_productId item)
             (filter (\<lambda>p. product_id p \<in> set ids) (products w)) =
           find (\<lambda>p. product_id p = ci_productId item) (products w)"
    by (rule find_filter_same) (simp add: m)
  have l: "list_ex (\<lambda>p. product_id p = ci_productId item)
             (filter (\<lambda>p. product_id p \<in> set ids) (products w)) =
           list_ex (\<lambda>p. product_id p = ci_productId item) (products w)"
    by (rule list_ex_filter_same) (simp add: m)
  show ?thesis
    by (simp only: spec_item_failure_def PRODUCTS_BY_IDS_QUERY_def f l)
qed

lemma map_filter_cong_set:
  "(\<And>x. x \<in> set xs \<Longrightarrow> f x = g x) \<Longrightarrow> List.map_filter f xs = List.map_filter g xs"
  by (induction xs) (auto simp: List.map_filter_simps split: option.splits)


lemma validate_items_acc:
  "validate_items found items errs oks =
     (errs @ List.map_filter (spec_item_failure found) items,
      oks @ map (\<lambda>item. \<lparr>vi_product = the (find (\<lambda>p. product_id p = ci_productId item) found),
                           vi_quantity = ci_quantity item\<rparr>)
                (filter (\<lambda>item. spec_item_failure found item = None) items))"
proof (induction items arbitrary: errs oks)
  case Nil
  then show ?case by (simp add: List.map_filter_simps)
next
  case (Cons item items)
  show ?case
  proof (cases "find (\<lambda>p. product_id p = ci_productId item) found")
    case None
    then have "spec_item_failure found item = Some (ProductUnavailable (ci_name item))"
      by (simp add: spec_item_failure_def list_ex_iff find_None_iff)
    with None show ?thesis by (simp add: Cons.IH List.map_filter_simps)
  next
    case (Some product)
    then have ex: "list_ex (\<lambda>p. product_id p = ci_productId item) found"
      by (auto simp: list_ex_iff find_Some_iff)
    show ?thesis
      using Some ex
      by (simp add: Cons.IH List.map_filter_simps spec_item_failure_def Let_def)
  qed
qed

lemma validation_errors_store:
  "fst (validate_items (PRODUCTS_BY_IDS_QUERY w (map ci_productId items)) items [] []) =
   List.map_filter (spec_item_failure (products w)) items"
proof -
  have "List.map_filter (spec_item_failure (PRODUCTS_BY_IDS_QUERY w (map ci_productId items))) items =
        List.map_filter (spec_item_failure (products w)) items"
    by (rule map_filter_cong_set) (simp add: spec_item_failure_query)
  then show ?thesis by (simp add: validate_items_acc)
qed

lemma createCheckoutSession_catch:
  "fst (createCheckoutSession_try e items w) = Inl err \<Longrightarrow>
   fst (createCheckoutSession e items w) =
     \<lparr>cr_success = False, cr_url = None,
      cr_error = Some ''Something went wrong. Please try again.''\<rparr>"
  by (auto simp: createCheckoutSession_def split: prod.splits sum.splits)

text \<open>
  C7. The errors of the validation loop are, in cart order, the failures the specification
  asks for, one for each failing item, checked against the store's current products:
  unavailable when the store has no product with the item's id, out of stock when its stock
  is 0, insufficient when the quantity exceeds the stock. All of them are collected: there
  are as many errors as failing items. When there is at least one, a signed-in caller gets
  the single result \<^verbatim>\<open>{ success: false, error }\<close> whose error joins the messages of all of
  them, and nothing is written. No exception leaves \<^verbatim>\<open>createCheckoutSession\<close>: one thrown
  inside becomes the result with the fixed message.
\<close>

theorem validation_collects_all_failures:
  "fst (validate_items (PRODUCTS_BY_IDS_QUERY w (map ci_productId items)) items [] []) =
     List.map_filter (spec_item_failure (products w)) items \<and>
   length (fst (validate_items (PRODUCTS_BY_IDS_QUERY w (map ci_productId items)) items [] [])) =
     length (filter (\<lambda>item. spec_item_failure (products w) item \<noteq> None) items) \<and>
   (\<not> fails e Auth \<and> \<not> fails e CurrentUser \<and> \<not> fails e FetchProducts \<and>
    truthy (auth_userId e) \<and> current_user e \<noteq> None \<and>
    List.map_filter (spec_item_failure (products w)) items \<noteq> [] \<longrightarrow>
      createCheckoutSession e items w =
        (\<lparr>cr_success = False, cr_url = None,
          cr_error = Some (join ''. '' (map error_message
                       (List.map_filter (spec_item_failure (products w)) items)))\<rparr>, w)) \<and>
   (fst (createCheckoutSession_try e items w) = Inl err \<longrightarrow>
      fst (createCheckoutSession e items w) =
        \<lparr>cr_success = False, cr_url = None,
         cr_error = Some ''Something went wrong. Please try again.''\<rparr>)"
proof (intro conjI impI)
  show v: "fst (validate_items (PRODUCTS_BY_IDS_QUERY w (map ci_productId items)) items [] []) =
     List.map_filter (spec_item_failure (products w)) items"
    by (rule validation_errors_store)
  show "length (fst (validate_items (PRODUCTS_BY_IDS_QUERY w (map ci_productId items)) items [] [])) =
     length (filter (\<lambda>item. spec_item_failure (products w) item \<noteq> None) items)"
    unfolding v by (simp add: List.map_filter_def)
  show "fst (createCheckoutSession e items w) =
        \<lparr>cr_success = False, cr_url = None,
         cr_error = Some ''Something went wrong. Please try again.''\<rparr>"
    if "fst (createCheckoutSession_try e items w) = Inl err"
    using that by (rule createCheckoutSession_catch)
  assume a: "\<not> fails e Auth \<and> \<not> fails e CurrentUser \<and> \<not> fails e FetchProducts \<and>
    truthy (auth_userId e) \<and> current_user e \<noteq> None \<and>
    List.map_filter (spec_item_failure (products w)) items \<noteq> []"
  then have ne: "items \<noteq> []" by (auto simp: List.map_filter_simps)
  obtain errs oks where vi:
    "validate_items (PRODUCTS_BY_IDS_QUERY w (map ci_productId items)) items [] [] = (errs, oks)"
    by (cases "validate_items (PRODUCTS_BY_IDS_QUERY w (map ci_productId items)) items [] []")
  with v have errs: "errs = List.map_filter (spec_item_failure (products w)) items" by simp
  with a have "errs \<noteq> []" by simp
  with a ne vi have "createCheckoutSession_try e items w =
      (Inr \<lparr>cr_success = False, cr_url = None,
            cr_error = Some (join ''. '' (map error_message errs))\<rparr>, w)"
    by (auto simp add: createCheckoutSession_try_def Let_def)
  then show "createCheckoutSession e items w =
        (\<lparr>cr_success = False, cr_url = None,
          cr_error = Some (join ''. '' (map error_message
                       (List.map_filter (spec_item_failure (products w)) items)))\<rparr>, w)"
    by (simp add: createCheckoutSession_def errs)
qed


text \<open>A cart with an unknown sofa, a chair that passes, a desk out of stock and seven
  lamps of three: three errors come back together.\<close>

theorem validation_collects_all_failures_witness:
  "List.map_filter (spec_item_failure (products world3)) cart_failing =
     [ProductUnavailable ''Sofa'', OutOfStock (Some ''Desk''),
      InsufficientStock (Some 3) (Some ''Lamp'')] \<and>
   createCheckoutSession env1 cart_failing world3 =
     (\<lparr>cr_success = False, cr_url = None,
       cr_error = Some (join ''. '' (map error_message
         [ProductUnavailable ''Sofa'', OutOfStock (Some ''Desk''),
          InsufficientStock (Some 3) (Some ''Lamp'')]))\<rparr>, world3) \<and>
   error_message (InsufficientStock (Some 3) (Some ''Lamp'')) = ''Only 3 of '' @ quoted ''Lamp'' @ '' available''"
proof -
  have f: "List.map_filter (spec_item_failure (products world3)) cart_failing =
     [ProductUnavailable ''Sofa'', OutOfStock (Some ''Desk''),
      InsufficientStock (Some 3) (Some ''Lamp'')]"
    by code_simp
  have a: "\<not> fails env1 Auth \<and> \<not> fails env1 CurrentUser \<and> \<not> fails env1 FetchProducts \<and>
    truthy (auth_userId env1) \<and> current_user env1 \<noteq> None \<and>
    List.map_filter (spec_item_failure (products world3)) cart_failing \<noteq> []"
    unfolding f by code_simp
  have m: "error_message (InsufficientStock (Some 3) (Some ''Lamp'')) =
             ''Only 3 of '' @ quoted ''Lamp'' @ '' available''"
    by code_simp
  have c: "createCheckoutSession env1 cart_failing world3 =
        (\<lparr>cr_success = False, cr_url = None,
          cr_error = Some (join ''. '' (map error_message
                       (List.map_filter (spec_item_failure (products world3)) cart_failing)))\<rparr>, world3)"
    by (rule validation_collects_all_failures [of world3 cart_failing env1,
          THEN conjunct2, THEN conjunct2, THEN conjunct1, THEN mp, OF a])
  from f c m show ?thesis by (simp only:) 
qed

subsection \<open>The price of a session line item\<close>



lemma getOrCreateStripeCustomer_frame:
  "getOrCreateStripeCustomer e email name clerkUserId w = (r, w1) \<Longrightarrow>
   stripe_created w1 = stripe_created w \<and> products w1 = products w \<and> orders w1 = orders w"
  by (auto simp: getOrCreateStripeCustomer_def Let_def split: if_splits option.splits prod.splits sum.splits)

lemma map_filter_Nil_iff:
  "List.map_filter f xs = [] \<longleftrightarrow> (\<forall>x \<in> set xs. f x = None)"
  by (induction xs) (auto simp: List.map_filter_simps split: option.splits)

lemma spec_item_failure_None:
  assumes "spec_item_failure found item = None"
  shows "\<exists>p. find (\<lambda>p. product_id p = ci_productId item) found = Some p \<and> p \<in> set found \<and>
             product_id p = ci_productId item"
proof -
  from assms have "list_ex (\<lambda>p. product_id p = ci_productId item) found"
    by (auto simp: spec_item_failure_def split: if_splits)
  then obtain p where "find (\<lambda>p. product_id p = ci_productId item) found = Some p"
    by (cases "find (\<lambda>p. product_id p = ci_productId item) found")
       (auto simp: find_None_iff list_ex_iff)
  then show ?thesis by (auto simp: find_Some_iff)
qed

lemma validated_items_facts:
  assumes "validate_items found items [] [] = ([], validatedItems)"
  shows "length validatedItems = length items"
    and "map (\<lambda>vi. product_id (vi_product vi)) validatedItems = map ci_productId items"
    and "map vi_quantity validatedItems = map ci_quantity items"
    and "set (map vi_product validatedItems) \<subseteq> set found"
proof -
  from assms have e: "List.map_filter (spec_item_failure found) items = []"
    and v: "validatedItems =
      map (\<lambda>item. \<lparr>vi_product = the (find (\<lambda>p. product_id p = ci_productId item) found),
                           vi_quantity = ci_quantity item\<rparr>)
                (filter (\<lambda>item. spec_item_failure found item = None) items)"
    by (simp_all add: validate_items_acc)
  from e have n: "\<forall>item \<in> set items. spec_item_failure found item = None"
    by (simp add: map_filter_Nil_iff)
  then have f: "filter (\<lambda>item. spec_item_failure found item = None) items = items"
    by (simp add: filter_id_conv)
  show "length validatedItems = length items" by (simp add: v f)
  show "map vi_quantity validatedItems = map ci_quantity items" by (simp add: v f comp_def)
  have g: "\<And>item. item \<in> set items \<Longrightarrow>
      product_id (the (find (\<lambda>p. product_id p = ci_productId item) found)) = ci_productId item \<and>
      the (find (\<lambda>p. product_id p = ci_productId item) found) \<in> set found"
  proof -
    fix item assume "item \<in> set items"
    with n have "spec_item_failure found item = None" by blast
    from spec_item_failure_None [OF this]
    show "product_id (the (find (\<lambda>p. product_id p = ci_productId item) found)) = ci_productId item \<and>
      the (find (\<lambda>p. product_id p = ci_productId item) found) \<in> set found"
      by auto
  qed
  show "map (\<lambda>vi. product_id (vi_product vi)) validatedItems = map ci_productId items"
    unfolding v f by (simp add: comp_def g)
  show "set (map vi_product validatedItems) \<subseteq> set found"
    unfolding v f by (auto simp: g)
qed


lemma createCheckoutSession_success:
  assumes "createCheckoutSession e items w = (r, w')" and "cr_success r"
  shows "\<exists>validatedItems userEmail userName stripeCustomerId sanityCustomerId w1.
     validate_items (PRODUCTS_BY_IDS_QUERY w (map ci_productId items)) items [] [] = ([], validatedItems) \<and>
     getOrCreateStripeCustomer e userEmail userName (the (auth_userId e)) w =
       (Inr (stripeCustomerId, sanityCustomerId), w1) \<and>
     w' = w1\<lparr>stripe_created := stripe_created w1 @
            [checkout_params e (map (stripe_line_item e) validatedItems) stripeCustomerId
               (checkout_metadata (the (auth_userId e)) userEmail sanityCustomerId validatedItems)]\<rparr>"
  using assms
  unfolding createCheckoutSession_def createCheckoutSession_try_def Let_def
  by (auto split: if_splits prod.splits sum.splits) blast+




subsection \<open>The metadata round trip\<close>

text \<open>Splitting undoes joining when no field contains the separator and there is a field;
  reading undoes printing of integers.\<close>

lemma split_no_sep: "sep \<notin> set x \<Longrightarrow> split sep x = [x]"
  by (induction x) auto

lemma split_append_sep: "sep \<notin> set x \<Longrightarrow> split sep (x @ sep # rest) = x # split sep rest"
  by (induction x) auto

lemma split_join:
  "xs \<noteq> [] \<Longrightarrow> \<forall>x \<in> set xs. sep \<notin> set x \<Longrightarrow> split sep (join [sep] xs) = xs"
proof (induction xs)
  case Nil
  then show ?case by simp
next
  case (Cons x xs)
  show ?case
  proof (cases xs)
    case Nil
    with Cons.prems show ?thesis by (simp add: split_no_sep)
  next
    case (Cons y ys)
    with Cons.prems Cons.IH show ?thesis by (simp add: split_append_sep)
  qed
qed

lemma digit_val_digit_char: "d < 10 \<Longrightarrow> digit_val (digit_char d) = Some d"
  by (simp add: digit_val_def digit_char_def Let_def)

lemma digits_chars: "c \<in> set (digits n) \<Longrightarrow> \<exists>d<10. c = digit_char d"
proof (induction n rule: digits.induct)
  case (1 n)
  show ?case
  proof (cases "n < 10")
    case True
    with "1.prems" show ?thesis by (subst (asm) digits.simps) auto
  next
    case False
    with "1.prems" have "c \<in> set (digits (n div 10)) \<or> c = digit_char (n mod 10)"
      by (subst (asm) digits.simps) auto
    with False "1.IH" show ?thesis
      by (metis mod_less_divisor zero_less_numeral)
  qed
qed

lemma digits_nonempty: "digits n \<noteq> []"
  by (subst digits.simps) simp

lemma parse_digits_append:
  "parse_digits acc (xs @ ys) =
     (case parse_digits acc xs of None \<Rightarrow> None | Some v \<Rightarrow> parse_digits v ys)"
  by (induction xs arbitrary: acc) (auto split: option.splits)

lemma parse_digits_digits: "parse_digits 0 (digits n) = Some n"
proof (induction n rule: digits.induct)
  case (1 n)
  show ?case
  proof (cases "n < 10")
    case True
    then show ?thesis by (subst digits.simps) (simp add: digit_val_digit_char)
  next
    case False
    with "1.IH" have "parse_digits 0 (digits (n div 10)) = Some (n div 10)" by simp
    with False show ?thesis
      by (subst digits.simps) (simp add: parse_digits_append digit_val_digit_char)
  qed
qed


lemma digit_char_neq:
  assumes "d < 10" and "(of_char c :: nat) < 48"
  shows "digit_char d \<noteq> c"
proof
  assume "digit_char d = c"
  then have "(of_char (digit_char d) :: nat) = of_char c" by simp
  with assms show False by (simp add: digit_char_def)
qed

lemma digits_no_char:
  "(of_char c :: nat) < 48 \<Longrightarrow> c \<notin> set (digits n)"
  using digits_chars digit_char_neq by blast

lemma String_no_comma: "CHR '','' \<notin> set (String n)"
  by (simp add: String_def digits_no_char)

lemma digits_Cons: "\<exists>c cs. digits n = c # cs \<and> c \<noteq> CHR ''-'' \<and> c \<noteq> CHR ''+''"
proof -
  obtain c cs where d: "digits n = c # cs"
    using digits_nonempty [of n] by (cases "digits n") auto
  then have "c \<in> set (digits n)" by simp
  then have "c \<noteq> CHR ''-'' \<and> c \<noteq> CHR ''+''"
    using digits_no_char [of "CHR ''-''" n] digits_no_char [of "CHR ''+''" n] by auto
  with d show ?thesis by blast
qed

lemma Number_String: "Number (String n) = Num n"
proof (cases "n < 0")
  case True
  then show ?thesis
    by (simp add: String_def Number_def digits_nonempty parse_digits_digits)
next
  case False
  obtain c cs where d: "digits (nat n) = c # cs" and c: "c \<noteq> CHR ''-''" "c \<noteq> CHR ''+''"
    using digits_Cons by blast
  have "parse_digits 0 (c # cs) = Some (nat n)"
    using parse_digits_digits [of "nat n"] d by simp
  with False c d show ?thesis
    by (simp add: String_def Number_def del: parse_digits.simps)
qed

lemma decode_encode_productIds:
  assumes "validatedItems \<noteq> []"
    and "\<forall>vi \<in> set validatedItems. CHR '','' \<notin> set (product_id (vi_product vi))"
  shows "decode_productIds (encode_productIds validatedItems) =
         map (\<lambda>vi. product_id (vi_product vi)) validatedItems"
  unfolding decode_productIds_def encode_productIds_def
  using assms by (intro split_join) auto

lemma decode_encode_quantities:
  assumes "validatedItems \<noteq> []"
  shows "decode_quantities (encode_quantities validatedItems) =
         map (\<lambda>vi. Num (vi_quantity vi)) validatedItems"
proof -
  have "split CHR '','' (join '','' (map (\<lambda>i. String (vi_quantity i)) validatedItems)) =
        map (\<lambda>i. String (vi_quantity i)) validatedItems"
    using assms by (intro split_join) (auto simp: String_no_comma)
  then show ?thesis
    by (simp add: decode_quantities_def encode_quantities_def comp_def Number_String)
qed


lemma stock_patches_aligned:
  "length quantities = length productIds \<Longrightarrow>
   stock_patches productIds quantities = zip productIds (map Some quantities)"
  unfolding stock_patches_def
  by (rule nth_equalityI) (simp_all add: nth_enumerate_eq at_index_def)

lemma checkout_metadata_get:
  assumes "session_metadata s = Some (checkout_metadata userId userEmail sanityCustomerId validatedItems)"
  shows "metadata_get s ''productIds'' = Some (encode_productIds validatedItems)"
    and "metadata_get s ''quantities'' = Some (encode_quantities validatedItems)"
    and "metadata_get s ''clerkUserId'' = Some userId"
  using assms by (simp_all add: metadata_get_def checkout_metadata_def)

text \<open>
  C8. Let \<^verbatim>\<open>createCheckoutSession\<close> create a session for a cart, over a store whose document
  ids contain no comma (the Content Store's ids are made of letters, digits, dot, underscore
  and hyphen). Then for any session object carrying the metadata of that request, the
  handler's decoding gives back the cart: the product ids in cart order, the quantities in
  cart order as numbers, and hence patches that pair each product id with its own quantity.
\<close>

theorem metadata_round_trip:
  assumes "createCheckoutSession e items w = (r, w')" and "cr_success r"
    and "\<forall>p \<in> set (products w). CHR '','' \<notin> set (product_id p)"
  shows "\<exists>params. stripe_created w' = stripe_created w @ [params] \<and>
     (\<forall>s. session_metadata s = Some (sp_metadata params) \<longrightarrow>
        decode_productIds (the (metadata_get s ''productIds'')) = map ci_productId items \<and>
        decode_quantities (the (metadata_get s ''quantities'')) =
          map (\<lambda>item. Num (ci_quantity item)) items \<and>
        stock_patches (decode_productIds (the (metadata_get s ''productIds'')))
                      (decode_quantities (the (metadata_get s ''quantities''))) =
          map (\<lambda>item. (ci_productId item, Some (Num (ci_quantity item)))) items)"
proof -
  from createCheckoutSession_success [OF assms(1,2)]
  obtain validatedItems userEmail userName stripeCustomerId sanityCustomerId w1 where
    v: "validate_items (PRODUCTS_BY_IDS_QUERY w (map ci_productId items)) items [] [] = ([], validatedItems)"
    and g: "getOrCreateStripeCustomer e userEmail userName (the (auth_userId e)) w =
       (Inr (stripeCustomerId, sanityCustomerId), w1)"
    and w': "w' = w1\<lparr>stripe_created := stripe_created w1 @
            [checkout_params e (map (stripe_line_item e) validatedItems) stripeCustomerId
               (checkout_metadata (the (auth_userId e)) userEmail sanityCustomerId validatedItems)]\<rparr>"
    by blast
  let ?md = "checkout_metadata (the (auth_userId e)) userEmail sanityCustomerId validatedItems"
  let ?params = "checkout_params e (map (stripe_line_item e) validatedItems) stripeCustomerId ?md"
  note f = validated_items_facts [OF v]
  have ne: "items \<noteq> []"
    using assms(1,2)
    by (auto simp: createCheckoutSession_def createCheckoutSession_try_def
        split: if_splits prod.splits sum.splits)
  with f(1) have ne': "validatedItems \<noteq> []" by auto
  have "set (map vi_product validatedItems) \<subseteq> set (products w)"
    using f(4) by (auto simp: PRODUCTS_BY_IDS_QUERY_def)
  with assms(3) have nc: "\<forall>vi \<in> set validatedItems. CHR '','' \<notin> set (product_id (vi_product vi))"
    by auto
  have c: "stripe_created w' = stripe_created w @ [?params]"
    using getOrCreateStripeCustomer_frame [OF g] by (simp add: w')
  have m: "sp_metadata ?params = ?md" by (simp add: checkout_params_def)
  have ids: "decode_productIds (encode_productIds validatedItems) = map ci_productId items"
    using decode_encode_productIds [OF ne' nc] f(2) by simp
  have "map Num (map vi_quantity validatedItems) = map Num (map ci_quantity items)"
    using f(3) by simp
  then have "map (\<lambda>vi. Num (vi_quantity vi)) validatedItems = map (\<lambda>item. Num (ci_quantity item)) items"
    by (simp add: comp_def)
  then have qs: "decode_quantities (encode_quantities validatedItems) =
                   map (\<lambda>item. Num (ci_quantity item)) items"
    using decode_encode_quantities [OF ne'] by simp
  have p: "stock_patches (map ci_productId items) (map (\<lambda>item. Num (ci_quantity item)) items) =
           map (\<lambda>item. (ci_productId item, Some (Num (ci_quantity item)))) items"
    by (simp add: stock_patches_aligned zip_map_map zip_same_conv_map)
  have "\<forall>s. session_metadata s = Some (sp_metadata ?params) \<longrightarrow>
        decode_productIds (the (metadata_get s ''productIds'')) = map ci_productId items \<and>
        decode_quantities (the (metadata_get s ''quantities'')) =
          map (\<lambda>item. Num (ci_quantity item)) items \<and>
        stock_patches (decode_productIds (the (metadata_get s ''productIds'')))
                      (decode_quantities (the (metadata_get s ''quantities''))) =
          map (\<lambda>item. (ci_productId item, Some (Num (ci_quantity item)))) items"
    unfolding m by (auto simp: checkout_metadata_get ids qs p)
  with c show ?thesis by blast
qed


text \<open>Three products with quantities 2, 1 and 4: the strings \<^verbatim>\<open>p1,p2,p3\<close> and \<^verbatim>\<open>2,1,4\<close>, and
  back.\<close>

theorem metadata_round_trip_witness:
  "map sp_metadata (stripe_created (snd (createCheckoutSession env1 cart3 world3))) =
     [[(''clerkUserId'', ''user_1''), (''userEmail'', ''ada@example.com''),
       (''sanityCustomerId'', ''doc_1''), (''productIds'', ''p1,p2,p3''),
       (''quantities'', ''2,1,4'')]] \<and>
   decode_productIds ''p1,p2,p3'' = [''p1'', ''p2'', ''p3''] \<and>
   decode_quantities ''2,1,4'' = [Num 2, Num 1, Num 4] \<and>
   stock_patches (decode_productIds ''p1,p2,p3'') (decode_quantities ''2,1,4'') =
     [(''p1'', Some (Num 2)), (''p2'', Some (Num 1)), (''p3'', Some (Num 4))]"
proof -
  let ?md = "[(''clerkUserId'', ''user_1''), (''userEmail'', ''ada@example.com''),
       (''sanityCustomerId'', ''doc_1''), (''productIds'', ''p1,p2,p3''),
       (''quantities'', ''2,1,4'')]"
  let ?s = "session1\<lparr>session_metadata := Some ?md\<rparr>"
  obtain r w' where h: "createCheckoutSession env1 cart3 world3 = (r, w')"
    by (cases "createCheckoutSession env1 cart3 world3")
  have "cr_success (fst (createCheckoutSession env1 cart3 world3))" by code_simp
  with h have ok: "cr_success r" by simp
  have ids: "\<forall>p \<in> set (products world3). CHR '','' \<notin> set (product_id p)"
    by code_simp
  have A: "map sp_metadata (stripe_created (snd (createCheckoutSession env1 cart3 world3))) = [?md]"
    by code_simp
  have k: "stripe_created world3 = []" by (simp add: world3_def)
  from metadata_round_trip [OF h ok ids] obtain params where
    c: "stripe_created w' = stripe_created world3 @ [params]" and
    d: "\<forall>s. session_metadata s = Some (sp_metadata params) \<longrightarrow>
        decode_productIds (the (metadata_get s ''productIds'')) = map ci_productId cart3 \<and>
        decode_quantities (the (metadata_get s ''quantities'')) =
          map (\<lambda>item. Num (ci_quantity item)) cart3 \<and>
        stock_patches (decode_productIds (the (metadata_get s ''productIds'')))
                      (decode_quantities (the (metadata_get s ''quantities''))) =
          map (\<lambda>item. (ci_productId item, Some (Num (ci_quantity item)))) cart3"
    by blast
  from A h c k have m: "sp_metadata params = ?md" by simp
  have g: "metadata_get ?s ''productIds'' = Some ''p1,p2,p3''"
          "metadata_get ?s ''quantities'' = Some ''2,1,4''"
    by (simp_all add: metadata_get_def)
  have s: "session_metadata ?s = Some (sp_metadata params)" by (simp add: m)
  have c3: "map ci_productId cart3 = [''p1'', ''p2'', ''p3'']"
           "map (\<lambda>item. Num (ci_quantity item)) cart3 = [Num 2, Num 1, Num 4]"
           "map (\<lambda>item. (ci_productId item, Some (Num (ci_quantity item)))) cart3 =
              [(''p1'', Some (Num 2)), (''p2'', Some (Num 1)), (''p3'', Some (Num 4))]"
    by code_simp+
  from d [rule_format, OF s] have
    "decode_productIds ''p1,p2,p3'' = [''p1'', ''p2'', ''p3''] \<and>
     decode_quantities ''2,1,4'' = [Num 2, Num 1, Num 4] \<and>
     stock_patches (decode_productIds ''p1,p2,p3'') (decode_quantities ''2,1,4'') =
       [(''p1'', Some (Num 2)), (''p2'', Some (Num 1)), (''p3'', Some (Num 4))]"
    unfolding g c3 option.sel .
  with A show ?thesis by blast
qed

subsection \<open>Resolving the provider customer\<close>

text \<open>The three ways through \<^verbatim>\<open>getOrCreateStripeCustomer\<close> when no call fails.\<close>

lemma goc_linked:
  assumes "\<not> fails e FetchCustomer" "CUSTOMER_BY_EMAIL_QUERY w email = Some c"
    "truthy (customer_stripeCustomerId c)"
  shows "getOrCreateStripeCustomer e email name clerkUserId w =
           (Inr (the (customer_stripeCustomerId c), customer_id c), w)"
  using assms by (simp add: getOrCreateStripeCustomer_def)

lemma goc_patch:
  assumes "\<not> fails e FetchCustomer" "\<not> fails e ListStripeCustomers" "\<not> fails e CreateStripeCustomer"
    "\<not> fails e PatchCustomer"
    "CUSTOMER_BY_EMAIL_QUERY w email = Some c" "\<not> truthy (customer_stripeCustomerId c)"
  shows "getOrCreateStripeCustomer e email name clerkUserId w =
           (Inr (resolved_stripe_id e w email, customer_id c),
            (with_stripe_customer e email name clerkUserId w)
              \<lparr>customers :=
                 map (\<lambda>d. if customer_id d = customer_id c
                           then d\<lparr>customer_stripeCustomerId := Some (resolved_stripe_id e w email),
                                  customer_clerkUserId := Some clerkUserId,
                                  customer_name := Some name\<rparr>
                           else d)
                     (customers w)\<rparr>)"
  using assms
  by (cases "list_stripe_customers w email")
     (simp_all add: getOrCreateStripeCustomer_def resolved_stripe_id_def with_stripe_customer_def)

lemma goc_create:
  assumes "\<not> fails e FetchCustomer" "\<not> fails e ListStripeCustomers" "\<not> fails e CreateStripeCustomer"
    "\<not> fails e CreateCustomer"
    "CUSTOMER_BY_EMAIL_QUERY w email = None"
  shows "getOrCreateStripeCustomer e email name clerkUserId w =
           (Inr (resolved_stripe_id e w email, new_document_id e),
            (with_stripe_customer e email name clerkUserId w)
              \<lparr>customers := customers w @
                 [\<lparr>customer_id = new_document_id e, customer_email = Some email,
                   customer_name = Some name,
                   customer_clerkUserId = Some clerkUserId,
                   customer_stripeCustomerId = Some (resolved_stripe_id e w email),
                   customer_createdAt = Some (now_iso e)\<rparr>]\<rparr>)"
  using assms
  by (cases "list_stripe_customers w email")
     (simp_all add: getOrCreateStripeCustomer_def resolved_stripe_id_def with_stripe_customer_def)

lemma find_map_preserving:
  "(\<And>x. P (f x) = P x) \<Longrightarrow> find P (map f xs) = map_option f (find P xs)"
  by (induction xs) auto

lemma find_append_new:
  "find P xs = None \<Longrightarrow> P x \<Longrightarrow> find P (xs @ [x]) = Some x"
  by (induction xs) (auto split: if_splits)

lemma resolved_stripe_id_nonempty:
  assumes "new_stripe_id e \<noteq> []" "\<forall>c \<in> set (stripe_customers w). sc_id c \<noteq> []"
  shows "resolved_stripe_id e w email \<noteq> []"
proof (cases "list_stripe_customers w email")
  case Nil
  with assms(1) show ?thesis by (simp add: resolved_stripe_id_def)
next
  case (Cons c cs)
  then have "c \<in> set (list_stripe_customers w email)" by simp
  then have "c \<in> set (stripe_customers w)"
    unfolding list_stripe_customers_def by (auto dest: in_set_takeD)
  with assms(2) Cons show ?thesis by (simp add: resolved_stripe_id_def)
qed


lemma with_stripe_customer_frame:
  "customers (with_stripe_customer e email name clerkUserId w) = customers w"
  "length (stripe_customers (with_stripe_customer e email name clerkUserId w))
     \<le> length (stripe_customers w) + 1"
  by (simp_all add: with_stripe_customer_def split: list.splits)

text \<open>
  C9, as the code has it: the key is the email. With no call failing and provider ids not
  empty, the call returns a provider customer id and a store record id. If the store has a
  customer with this email that carries a provider id, these are returned and nothing is
  written. Otherwise the provider id is that of the newest provider customer with this email
  if there is one (whoever created it: an earlier attempt that stopped before writing the
  link, for instance) and else that of a customer created now; and the link is written to
  the store, into the record found by email or into a new one. After the call the store's
  record for this email carries the returned ids; each store has at most one record more
  than before; and a further call with the same email, under any later conditions in which
  the lookup works, returns the same two ids and writes nothing.
\<close>

theorem customer_resolution_by_email:
  assumes no_failure: "\<not> fails e FetchCustomer \<and> \<not> fails e ListStripeCustomers \<and>
      \<not> fails e CreateStripeCustomer \<and> \<not> fails e PatchCustomer \<and> \<not> fails e CreateCustomer"
    and ids: "new_stripe_id e \<noteq> [] \<and> (\<forall>c \<in> set (stripe_customers w). sc_id c \<noteq> [])"
    and again: "\<not> fails e' FetchCustomer"
  shows "\<exists>stripeCustomerId sanityCustomerId w1.
     getOrCreateStripeCustomer e email name clerkUserId w =
       (Inr (stripeCustomerId, sanityCustomerId), w1) \<and>
     (\<forall>c. CUSTOMER_BY_EMAIL_QUERY w email = Some c \<and> truthy (customer_stripeCustomerId c) \<longrightarrow>
          stripeCustomerId = the (customer_stripeCustomerId c) \<and> sanityCustomerId = customer_id c \<and>
          w1 = w) \<and>
     (\<not> (\<exists>c. CUSTOMER_BY_EMAIL_QUERY w email = Some c \<and> truthy (customer_stripeCustomerId c)) \<longrightarrow>
          stripeCustomerId = resolved_stripe_id e w email \<and>
          stripe_customers w1 = stripe_customers (with_stripe_customer e email name clerkUserId w)) \<and>
     (\<exists>c. CUSTOMER_BY_EMAIL_QUERY w1 email = Some c \<and>
          customer_stripeCustomerId c = Some stripeCustomerId \<and> customer_id c = sanityCustomerId) \<and>
     length (stripe_customers w1) \<le> length (stripe_customers w) + 1 \<and>
     length (customers w1) \<le> length (customers w) + 1 \<and>
     getOrCreateStripeCustomer e' email name' clerkUserId' w1 =
       (Inr (stripeCustomerId, sanityCustomerId), w1)"
proof -
  let ?sid = "resolved_stripe_id e w email"
  let ?ws = "with_stripe_customer e email name clerkUserId w"
  have sid: "?sid \<noteq> []"
    using ids by (simp add: resolved_stripe_id_nonempty)
  show ?thesis
  proof (cases "CUSTOMER_BY_EMAIL_QUERY w email")
    case None
    let ?new = "\<lparr>customer_id = new_document_id e, customer_email = Some email,
                   customer_name = Some name,
                   customer_clerkUserId = Some clerkUserId,
                   customer_stripeCustomerId = Some ?sid,
                   customer_createdAt = Some (now_iso e)\<rparr>"
    let ?w1 = "?ws\<lparr>customers := customers w @ [?new]\<rparr>"
    have g: "getOrCreateStripeCustomer e email name clerkUserId w =
               (Inr (?sid, new_document_id e), ?w1)"
      using no_failure None by (simp add: goc_create)
    have q: "CUSTOMER_BY_EMAIL_QUERY ?w1 email = Some ?new"
      using None unfolding CUSTOMER_BY_EMAIL_QUERY_def
      by (simp add: find_append_new)
    have t: "truthy (customer_stripeCustomerId ?new)"
      using sid by (simp add: truthy_def)
    have r: "getOrCreateStripeCustomer e' email name' clerkUserId' ?w1 =
               (Inr (?sid, new_document_id e), ?w1)"
      using goc_linked [OF again q t] by simp
    from g q r None with_stripe_customer_frame [of e email name clerkUserId w]
    show ?thesis by simp
  next
    case (Some c)
    show ?thesis
    proof (cases "truthy (customer_stripeCustomerId c)")
      case True
      have g: "getOrCreateStripeCustomer e email name clerkUserId w =
           (Inr (the (customer_stripeCustomerId c), customer_id c), w)"
        using no_failure Some True by (simp add: goc_linked)
      have r: "getOrCreateStripeCustomer e' email name' clerkUserId' w =
           (Inr (the (customer_stripeCustomerId c), customer_id c), w)"
        using again Some True by (simp add: goc_linked)
      from True have "customer_stripeCustomerId c = Some (the (customer_stripeCustomerId c))"
        by (cases "customer_stripeCustomerId c") (simp_all add: truthy_def)
      with g r Some True show ?thesis by auto
    next
      case False
      let ?patch = "\<lambda>d. if customer_id d = customer_id c
                           then d\<lparr>customer_stripeCustomerId := Some ?sid,
                                  customer_clerkUserId := Some clerkUserId,
                                  customer_name := Some name\<rparr>
                           else d"
      let ?w1 = "?ws\<lparr>customers := map ?patch (customers w)\<rparr>"
      have g: "getOrCreateStripeCustomer e email name clerkUserId w =
                 (Inr (?sid, customer_id c), ?w1)"
        using no_failure Some False by (simp add: goc_patch)
      have "find (\<lambda>c. customer_email c = Some email) (map ?patch (customers w)) =
            map_option ?patch (find (\<lambda>c. customer_email c = Some email) (customers w))"
        by (rule find_map_preserving) simp
      with Some have q: "CUSTOMER_BY_EMAIL_QUERY ?w1 email = Some (?patch c)"
        by (simp add: CUSTOMER_BY_EMAIL_QUERY_def)
      have t: "truthy (customer_stripeCustomerId (?patch c))"
        using sid by (simp add: truthy_def)
      have r: "getOrCreateStripeCustomer e' email name' clerkUserId' ?w1 =
                 (Inr (?sid, customer_id c), ?w1)"
        using goc_linked [OF again q t] by simp
      from g q r Some False with_stripe_customer_frame [of e email name clerkUserId w]
      show ?thesis by simp
    qed
  qed
qed


text \<open>After a partial failure: the provider customer \<^verbatim>\<open>cus_7\<close> is found by email and
  linked, and a second call returns it again without a write.\<close>

theorem customer_resolution_by_email_witness:
  "fst (getOrCreateStripeCustomer env1 ''ada@example.com'' ''Ada'' ''user_1'' world_partial) =
     Inr (''cus_7'', ''doc_1'') \<and>
   getOrCreateStripeCustomer env2 ''ada@example.com'' ''Ada L'' ''user_1''
     (snd (getOrCreateStripeCustomer env1 ''ada@example.com'' ''Ada'' ''user_1'' world_partial)) =
     (Inr (''cus_7'', ''doc_1''),
      snd (getOrCreateStripeCustomer env1 ''ada@example.com'' ''Ada'' ''user_1'' world_partial)) \<and>
   map sc_id (stripe_customers
     (snd (getOrCreateStripeCustomer env1 ''ada@example.com'' ''Ada'' ''user_1'' world_partial))) =
     [''cus_7''] \<and>
   map customer_stripeCustomerId (customers
     (snd (getOrCreateStripeCustomer env1 ''ada@example.com'' ''Ada'' ''user_1'' world_partial))) =
     [Some ''cus_7'']"
proof -
  let ?call = "getOrCreateStripeCustomer env1 ''ada@example.com'' ''Ada'' ''user_1'' world_partial"
  have a: "\<not> fails env1 FetchCustomer \<and> \<not> fails env1 ListStripeCustomers \<and>
      \<not> fails env1 CreateStripeCustomer \<and> \<not> fails env1 PatchCustomer \<and> \<not> fails env1 CreateCustomer"
    by code_simp
  have b: "new_stripe_id env1 \<noteq> [] \<and> (\<forall>c \<in> set (stripe_customers world_partial). sc_id c \<noteq> [])"
    by code_simp
  have c: "\<not> fails env2 FetchCustomer" by code_simp
  have f: "fst ?call = Inr (''cus_7'', ''doc_1'')" by code_simp
  have s: "map sc_id (stripe_customers (snd ?call)) = [''cus_7'']" by code_simp
  have l: "map customer_stripeCustomerId (customers (snd ?call)) = [Some ''cus_7'']" by code_simp
  from customer_resolution_by_email [OF a b c, of "''ada@example.com''" "''Ada''" "''user_1''"
          "''Ada L''" "''user_1''"]
  obtain stripeCustomerId sanityCustomerId w1 where
    g: "?call = (Inr (stripeCustomerId, sanityCustomerId), w1)" and
    r: "getOrCreateStripeCustomer env2 ''ada@example.com'' ''Ada L'' ''user_1'' w1 =
          (Inr (stripeCustomerId, sanityCustomerId), w1)"
    by blast
  from g f have i: "stripeCustomerId = ''cus_7''" "sanityCustomerId = ''doc_1''" by simp_all
  from g have w1: "snd ?call = w1" by simp
  from r have "getOrCreateStripeCustomer env2 ''ada@example.com'' ''Ada L'' ''user_1'' (snd ?call) =
     (Inr (''cus_7'', ''doc_1''), snd ?call)"
    unfolding w1 i .
  with f s l show ?thesis by blast
qed

text \<open>
  The first tier is not a lookup by the buyer's external identity: the store is never asked
  for it. The buyer \<^verbatim>\<open>user_1\<close> below is linked to \<^verbatim>\<open>cus_0\<close> under a former email
  address; a call for the same buyer with the new address returns a new provider customer,
  and leaves two provider customers and two store records for \<^verbatim>\<open>user_1\<close>.
\<close>

theorem external_identity_counterexample:
  "map customer_clerkUserId (customers world_moved) = [Some ''user_1''] \<and>
   map customer_stripeCustomerId (customers world_moved) = [Some ''cus_0''] \<and>
   map sc_id (stripe_customers world_moved) = [''cus_0''] \<and>
   fst (getOrCreateStripeCustomer env1 ''ada@example.com'' ''Ada'' ''user_1'' world_moved) =
     Inr (''cus_1'', ''doc_1'') \<and>
   map sc_id (stripe_customers
     (snd (getOrCreateStripeCustomer env1 ''ada@example.com'' ''Ada'' ''user_1'' world_moved))) =
     [''cus_1'', ''cus_0''] \<and>
   map customer_clerkUserId (customers
     (snd (getOrCreateStripeCustomer env1 ''ada@example.com'' ''Ada'' ''user_1'' world_moved))) =
     [Some ''user_1'', Some ''user_1'']"
  by code_simp

end
